theory Spec2Isabelle
  imports Main "HOL-Library.Word"
begin

section \<open>EC key handling of the attestation sample (eckey.c)\<close>

text \<open>
  The module keeps a last-error record in two static variables and offers three
  operations on OpenSSL key objects plus a report function. The functions of eckey.c are
  embedded one by one. What they call (libc and libcrypto) is not part of the repository:
  every outcome the library is free to choose (an allocation that fails, a call that
  reports failure, the key material it generates) is a parameter of the embedding, and
  the documented effect of a call on the objects it is given is written out.
\<close>

subsection \<open>Data\<close>

type_synonym byte = "8 word"
type_synonym handle = nat
type_synonym addr = nat

text \<open>The enum \<open>_error_type\<close> of the source.\<close>

datatype error_type_t = e_none | e_crypto | e_system

text \<open>An EC key: the curve it is on (an OpenSSL NID), its public point, its private scalar.\<close>

record ec_key =
  curve_nid :: int
  pub_key :: "(nat \<times> nat) option"
  priv_key :: "nat option"

text \<open>
  What an \<open>EVP_PKEY\<close> holds: nothing yet, an EC key, or a key of another algorithm.
  Reference counting is abstracted: an \<open>EVP_PKEY\<close> carries its EC key by value.
\<close>

datatype pkey = PKEY_empty | PKEY_EC ec_key | PKEY_other

text \<open>
  What an \<open>EVP_PKEY_CTX\<close> holds: the curve chosen for parameter generation, the key
  or parameters it was created for, and the peer key of a derivation.
\<close>

record evp_ctx =
  ctx_nid :: "int option"
  ctx_pkey :: pkey
  ctx_peer :: "pkey option"

text \<open>
  The objects the library allocates. A buffer records its capacity and the bytes written
  to it so far.
\<close>

datatype obj =
    BIGNUM nat
  | EC_KEY ec_key
  | EVP_PKEY pkey
  | EVP_PKEY_CTX evp_ctx
  | FILE_stream string
  | BUF nat "byte list"

text \<open>What is at a path: a file that cannot be opened (with the \<open>errno\<close> the open
  leaves), or the private key a PEM reader finds in it, if any.\<close>

datatype file_entry = Unopenable int | Readable "pkey option"

text \<open>Lines written to the diagnostic stream.\<close>

datatype out_event =
    Out_prefix string
  | Out_no_error
  | Out_perror "string option" int
  | Out_ERR_queue
  | Out_slen nat
  | Out_secret handle

text \<open>
  The state: the two statics \<open>error_type\<close> and \<open>ep\<close> of the source, the log of the
  values assigned to \<open>error_type\<close> (a ghost field, one entry per assignment), the
  library's objects with its allocator, the file system, the caller's C strings,
  \<open>errno\<close>, and the diagnostic stream.
\<close>

record state =
  error_type :: error_type_t
  ep :: "addr option"
  error_writes :: "error_type_t list"
  heap :: "handle \<rightharpoonup> obj"
  next_handle :: handle
  files :: "string \<Rightarrow> file_entry"
  cstr :: "addr \<Rightarrow> string"
  errno :: int
  stderr :: "out_event list"

definition set_error_type :: "error_type_t \<Rightarrow> state \<Rightarrow> state" where
  "set_error_type e s = s\<lparr>error_type := e, error_writes := error_writes s @ [e]\<rparr>"

definition alloc :: "obj \<Rightarrow> state \<Rightarrow> handle \<times> state" where
  "alloc v s =
     (next_handle s,
      s\<lparr>heap := (heap s)(next_handle s \<mapsto> v), next_handle := Suc (next_handle s)\<rparr>)"

definition release :: "handle \<Rightarrow> state \<Rightarrow> state" where
  "release h s = s\<lparr>heap := (heap s)(h := None)\<rparr>"

text \<open>The idiom \<open>if ( p != NULL ) f(p);\<close> of the cleanup code.\<close>

definition if_not_NULL :: "handle option \<Rightarrow> (handle \<Rightarrow> state \<Rightarrow> state) \<Rightarrow> state \<Rightarrow> state" where
  "if_not_NULL p f s = (case p of None \<Rightarrow> s | Some h \<Rightarrow> f h s)"

text \<open>The allocator hands out handles that are not in use.\<close>

definition heap_wf :: "state \<Rightarrow> bool" where
  "heap_wf s \<longleftrightarrow> (\<forall>h. next_handle s \<le> h \<longrightarrow> heap s h = None)"

subsection \<open>Curve P-256\<close>

definition NID_X9_62_prime256v1 :: int where
  "NID_X9_62_prime256v1 = 415"

definition NID_secp384r1 :: int where
  "NID_secp384r1 = 715"

definition p256_p :: nat where
  "p256_p = 115792089210356248762697446949407573530086143415290314195533631308867097853951"

definition p256_b :: nat where
  "p256_b = 41058363725152142129326129780047268409114441015993725554835256314039467401291"

text \<open>The curve equation \<open>y\<^sup>2 = x\<^sup>3 - 3 x + b\<close> over the prime field.\<close>

definition p256_on_curve :: "nat \<Rightarrow> nat \<Rightarrow> bool" where
  "p256_on_curve x y \<longleftrightarrow>
     (y * y) mod p256_p = (x * x * x + (p256_p - 3) * x + p256_b) mod p256_p"

definition p256_Gx :: nat where
  "p256_Gx = 48439561293906451759052585252797914202762949526041747995844080717082404635286"

definition p256_Gy :: nat where
  "p256_Gy = 36134250956749795798585127919587881956611106672985015071877198253568414405109"

subsection \<open>Library calls of key_from_sgx_ec256\<close>

text \<open>The value of a little-endian byte string.\<close>

fun lebin2nat :: "byte list \<Rightarrow> nat" where
  "lebin2nat [] = 0"
| "lebin2nat (b # bs) = unat b + 256 * lebin2nat bs"

text \<open>\<open>BN_lebin2bn(s, len, NULL)\<close>: a new big number holding the first \<open>len\<close> bytes of
  \<open>s\<close> read little-endian, or NULL when the allocation fails.\<close>

definition BN_lebin2bn :: "bool \<Rightarrow> byte list \<Rightarrow> nat \<Rightarrow> state \<Rightarrow> handle option \<times> state" where
  "BN_lebin2bn ok bs len s =
     (if ok then (case alloc (BIGNUM (lebin2nat (take len bs))) s of (h, s') \<Rightarrow> (Some h, s'))
      else (None, s))"

definition BN_free :: "handle \<Rightarrow> state \<Rightarrow> state" where
  "BN_free h s = release h s"

text \<open>\<open>EC_KEY_new_by_curve_name(nid)\<close>: an empty key bound to the curve, or NULL.\<close>

definition EC_KEY_new_by_curve_name :: "bool \<Rightarrow> int \<Rightarrow> state \<Rightarrow> handle option \<times> state" where
  "EC_KEY_new_by_curve_name ok nid s =
     (if ok
      then (case alloc (EC_KEY \<lparr>curve_nid = nid, pub_key = None, priv_key = None\<rparr>) s of
              (h, s') \<Rightarrow> (Some h, s'))
      else (None, s))"

definition EC_KEY_free :: "handle \<Rightarrow> state \<Rightarrow> state" where
  "EC_KEY_free h s = release h s"

text \<open>
  \<open>EC_KEY_set_public_key_affine_coordinates(key, x, y)\<close>: the library sets the point,
  reads it back and refuses coordinates that come back changed (they were not below the
  field prime), then checks the key, which refuses a point off the curve. It returns 1
  and stores the point, or returns 0 and leaves the key as it was. Only the curve this
  module names is tabulated; \<open>ok\<close> is whether the library's own allocations succeed.
\<close>

definition EC_KEY_set_public_key_affine_coordinates ::
  "bool \<Rightarrow> handle \<Rightarrow> handle \<Rightarrow> handle \<Rightarrow> state \<Rightarrow> int \<times> state" where
  "EC_KEY_set_public_key_affine_coordinates ok key x y s =
     (case (heap s key, heap s x, heap s y) of
        (Some (EC_KEY k), Some (BIGNUM vx), Some (BIGNUM vy)) \<Rightarrow>
          if ok \<and> curve_nid k = NID_X9_62_prime256v1 \<and> vx < p256_p \<and> vy < p256_p
             \<and> p256_on_curve vx vy
          then (1, s\<lparr>heap := (heap s)(key \<mapsto> EC_KEY (k\<lparr>pub_key := Some (vx, vy)\<rparr>))\<rparr>)
          else (0, s)
      | _ \<Rightarrow> (0, s))"

subsection \<open>key_from_sgx_ec256\<close>

text \<open>
  Modelled from the spec: the type \<open>sgx_ec256_public_t\<close> is declared in
  \<open>sgx_key_exchange.h\<close>, which is not among the sources; the spec describes it as a
  fixed-size structure of two 32-byte little-endian fields. The function reads exactly 32
  bytes of each field.
\<close>

record sgx_ec256_public_t =
  gx :: "byte list"
  gy :: "byte list"

text \<open>What the library is free to choose during one call of \<open>key_from_sgx_ec256\<close>.\<close>

record sgx_env =
  bn_gx_ok :: bool
  bn_gy_ok :: bool
  ec_key_new_ok :: bool
  set_affine_ok :: bool

text \<open>The code at the label \<open>cleanup\<close>.\<close>

definition key_from_sgx_ec256_cleanup ::
  "handle option \<Rightarrow> handle option \<Rightarrow> state \<Rightarrow> state" where
  "key_from_sgx_ec256_cleanup bn_x bn_y s =
     (let s1 = if_not_NULL bn_y BN_free s
      in if_not_NULL bn_x BN_free s1)"

definition key_from_sgx_ec256 ::
  "sgx_env \<Rightarrow> sgx_ec256_public_t \<Rightarrow> state \<Rightarrow> handle option \<times> state" where
  "key_from_sgx_ec256 env k s0 =
     (let s1 = set_error_type e_none s0 in
      case BN_lebin2bn (bn_gx_ok env) (gx k) 32 s1 of
        (None, s2) \<Rightarrow>
          (None, key_from_sgx_ec256_cleanup None None (set_error_type e_crypto s2))
      | (Some bn_x, s2) \<Rightarrow>
      (case BN_lebin2bn (bn_gy_ok env) (gy k) 32 s2 of
        (None, s3) \<Rightarrow>
          (None, key_from_sgx_ec256_cleanup (Some bn_x) None (set_error_type e_crypto s3))
      | (Some bn_y, s3) \<Rightarrow>
      (case EC_KEY_new_by_curve_name (ec_key_new_ok env) NID_X9_62_prime256v1 s3 of
        (None, s4) \<Rightarrow>
          (None,
           key_from_sgx_ec256_cleanup (Some bn_x) (Some bn_y) (set_error_type e_crypto s4))
      | (Some key, s4) \<Rightarrow>
      (case EC_KEY_set_public_key_affine_coordinates (set_affine_ok env) key bn_x bn_y s4 of
        (r, s5) \<Rightarrow>
          if r = 0
          then (None,
                key_from_sgx_ec256_cleanup (Some bn_x) (Some bn_y)
                  (set_error_type e_crypto (EC_KEY_free key s5)))
          else (Some key, key_from_sgx_ec256_cleanup (Some bn_x) (Some bn_y) s5)))))"

subsection \<open>Library calls of key_load_file\<close>

text \<open>\<open>EVP_PKEY_new()\<close>: an empty key object, or NULL.\<close>

definition EVP_PKEY_new :: "bool \<Rightarrow> state \<Rightarrow> handle option \<times> state" where
  "EVP_PKEY_new ok s =
     (if ok then (case alloc (EVP_PKEY PKEY_empty) s of (h, s') \<Rightarrow> (Some h, s'))
      else (None, s))"

definition EVP_PKEY_free :: "handle \<Rightarrow> state \<Rightarrow> state" where
  "EVP_PKEY_free h s = release h s"

text \<open>\<open>fopen(filename, "r")\<close>: a stream on the file named by the C string, or NULL
  with \<open>errno\<close> set.\<close>

definition fopen :: "addr \<Rightarrow> state \<Rightarrow> handle option \<times> state" where
  "fopen filename s =
     (case files s (cstr s filename) of
        Unopenable e \<Rightarrow> (None, s\<lparr>errno := e\<rparr>)
      | Readable c \<Rightarrow>
          (case alloc (FILE_stream (cstr s filename)) s of (h, s') \<Rightarrow> (Some h, s')))"

definition fclose :: "handle \<Rightarrow> state \<Rightarrow> state" where
  "fclose h s = release h s"

text \<open>
  \<open>PEM_read_PrivateKey(fp, &x, NULL, NULL)\<close>: when the stream holds a private key and
  the library's allocations succeed (\<open>ok\<close>), the key is stored in \<open>*x\<close>, in a new object
  when \<open>*x\<close> is NULL; otherwise \<open>*x\<close> stays as it is. The result is the new value of
  \<open>*x\<close> (the source ignores the return value).
\<close>

definition PEM_read_PrivateKey ::
  "bool \<Rightarrow> handle \<Rightarrow> handle option \<Rightarrow> state \<Rightarrow> handle option \<times> state" where
  "PEM_read_PrivateKey ok fp x s =
     (case heap s fp of
        Some (FILE_stream path) \<Rightarrow>
          (case files s path of
             Readable (Some k) \<Rightarrow>
               if ok
               then (case x of
                       Some h \<Rightarrow> (Some h, s\<lparr>heap := (heap s)(h \<mapsto> EVP_PKEY k)\<rparr>)
                     | None \<Rightarrow> (case alloc (EVP_PKEY k) s of (h, s') \<Rightarrow> (Some h, s')))
               else (x, s)
           | _ \<Rightarrow> (x, s))
      | _ \<Rightarrow> (x, s))"

text \<open>
  \<open>EVP_PKEY_get1_EC_KEY(pkey)\<close>: the EC key of the object, as a reference of the
  caller's own, or NULL when the object holds no EC key. The library reads the object's
  type without a NULL test: on NULL the process stops, which is the result \<open>None\<close>.
\<close>

definition EVP_PKEY_get1_EC_KEY :: "handle option \<Rightarrow> state \<Rightarrow> (handle option \<times> state) option" where
  "EVP_PKEY_get1_EC_KEY pk s =
     (case pk of
        None \<Rightarrow> None
      | Some h \<Rightarrow>
          (case heap s h of
             Some (EVP_PKEY (PKEY_EC k)) \<Rightarrow>
               (case alloc (EC_KEY k) s of (h', s') \<Rightarrow> Some (Some h', s'))
           | _ \<Rightarrow> Some (None, s)))"

subsection \<open>key_load_file\<close>

record load_env =
  load_pkey_new_ok :: bool
  pem_read_ok :: bool

text \<open>
  The result is the return value (\<open>None\<close> when the process stopped inside the library),
  the value of \<open>*eckey\<close> afterwards (\<open>eckey0\<close> is what it held before) and the state.
\<close>

definition key_load_file ::
  "load_env \<Rightarrow> handle option \<Rightarrow> addr \<Rightarrow> state \<Rightarrow> int option \<times> handle option \<times> state" where
  "key_load_file env eckey0 filename s0 =
     (let s1 = set_error_type e_none s0 in
      case EVP_PKEY_new (load_pkey_new_ok env) s1 of
        (pk, s2) \<Rightarrow>
      (case fopen filename s2 of
        (None, s3) \<Rightarrow>
          (Some 0, eckey0, (set_error_type e_system s3)\<lparr>ep := Some filename\<rparr>)
      | (Some fp, s3) \<Rightarrow>
      (case PEM_read_PrivateKey (pem_read_ok env) fp pk s3 of
        (pk', s4) \<Rightarrow>
      (case EVP_PKEY_get1_EC_KEY pk' (fclose fp s4) of
        None \<Rightarrow> (None, eckey0, fclose fp s4)
      | Some (None, s6) \<Rightarrow> (Some 0, None, set_error_type e_crypto s6)
      | Some (Some k, s6) \<Rightarrow> (Some 1, Some k, s6)))))"

subsection \<open>Library calls of key_shared_secret\<close>

text \<open>
  Each call reports 1 or a new object when it succeeds and 0 or NULL when it fails, which
  is what the source tests; \<open>ok\<close> says whether the library's own work succeeds. A call
  that fails changes nothing.
\<close>

definition EVP_PKEY_CTX_new_id :: "bool \<Rightarrow> state \<Rightarrow> handle option \<times> state" where
  "EVP_PKEY_CTX_new_id ok s =
     (if ok
      then (case alloc (EVP_PKEY_CTX \<lparr>ctx_nid = None, ctx_pkey = PKEY_empty, ctx_peer = None\<rparr>) s of
              (h, s') \<Rightarrow> (Some h, s'))
      else (None, s))"

definition EVP_PKEY_CTX_free :: "handle \<Rightarrow> state \<Rightarrow> state" where
  "EVP_PKEY_CTX_free h s = release h s"

definition EVP_PKEY_paramgen_init :: "bool \<Rightarrow> handle \<Rightarrow> state \<Rightarrow> int \<times> state" where
  "EVP_PKEY_paramgen_init ok ctx s = (if ok then (1, s) else (0, s))"

definition EVP_PKEY_CTX_set_ec_paramgen_curve_nid ::
  "bool \<Rightarrow> handle \<Rightarrow> int \<Rightarrow> state \<Rightarrow> int \<times> state" where
  "EVP_PKEY_CTX_set_ec_paramgen_curve_nid ok ctx nid s =
     (case heap s ctx of
        Some (EVP_PKEY_CTX c) \<Rightarrow>
          if ok then (1, s\<lparr>heap := (heap s)(ctx \<mapsto> EVP_PKEY_CTX (c\<lparr>ctx_nid := Some nid\<rparr>))\<rparr>)
          else (0, s)
      | _ \<Rightarrow> (0, s))"

text \<open>\<open>EVP_PKEY_paramgen(ctx, &params)\<close> with \<open>params\<close> NULL: parameters of the curve
  chosen in the context, in a new object.\<close>

definition EVP_PKEY_paramgen :: "bool \<Rightarrow> handle \<Rightarrow> state \<Rightarrow> int \<times> handle option \<times> state" where
  "EVP_PKEY_paramgen ok ctx s =
     (case heap s ctx of
        Some (EVP_PKEY_CTX c) \<Rightarrow>
          (case ctx_nid c of
             Some nid \<Rightarrow>
               if ok
               then (case alloc (EVP_PKEY (PKEY_EC \<lparr>curve_nid = nid, pub_key = None,
                                                    priv_key = None\<rparr>)) s of
                       (h, s') \<Rightarrow> (1, Some h, s'))
               else (0, None, s)
           | None \<Rightarrow> (0, None, s))
      | _ \<Rightarrow> (0, None, s))"

text \<open>\<open>EVP_PKEY_CTX_new(pkey, NULL)\<close>: a context for the key or parameters; NULL when
  \<open>pkey\<close> is NULL.\<close>

definition EVP_PKEY_CTX_new :: "bool \<Rightarrow> handle option \<Rightarrow> state \<Rightarrow> handle option \<times> state" where
  "EVP_PKEY_CTX_new ok pk s =
     (case pk of
        None \<Rightarrow> (None, s)
      | Some h \<Rightarrow>
          (case heap s h of
             Some (EVP_PKEY k) \<Rightarrow>
               if ok
               then (case alloc (EVP_PKEY_CTX \<lparr>ctx_nid = None, ctx_pkey = k, ctx_peer = None\<rparr>) s of
                       (h', s') \<Rightarrow> (Some h', s'))
               else (None, s)
           | _ \<Rightarrow> (None, s)))"

definition EVP_PKEY_keygen_init :: "bool \<Rightarrow> handle \<Rightarrow> state \<Rightarrow> int \<times> state" where
  "EVP_PKEY_keygen_init ok ctx s = (if ok then (1, s) else (0, s))"

text \<open>\<open>EVP_PKEY_keygen(ctx, &key)\<close> with \<open>key\<close> NULL: a new key pair on the curve of the
  context's parameters; \<open>d\<close> and \<open>q\<close> are the scalar the library draws and its point.\<close>

definition EVP_PKEY_keygen ::
  "bool \<Rightarrow> nat \<Rightarrow> nat \<times> nat \<Rightarrow> handle \<Rightarrow> state \<Rightarrow> int \<times> handle option \<times> state" where
  "EVP_PKEY_keygen ok d q ctx s =
     (case heap s ctx of
        Some (EVP_PKEY_CTX c) \<Rightarrow>
          (case ctx_pkey c of
             PKEY_EC k \<Rightarrow>
               if ok
               then (case alloc (EVP_PKEY (PKEY_EC (k\<lparr>pub_key := Some q, priv_key := Some d\<rparr>))) s of
                       (h, s') \<Rightarrow> (1, Some h, s'))
               else (0, None, s)
           | _ \<Rightarrow> (0, None, s))
      | _ \<Rightarrow> (0, None, s))"

text \<open>\<open>EVP_PKEY_set1_EC_KEY(pkey, key)\<close>: the object takes the EC key; 0 when \<open>key\<close> is
  NULL. A handle that is not a live EC key is treated like NULL.\<close>

definition EVP_PKEY_set1_EC_KEY :: "bool \<Rightarrow> handle \<Rightarrow> handle option \<Rightarrow> state \<Rightarrow> int \<times> state" where
  "EVP_PKEY_set1_EC_KEY ok pk key s =
     (case key of
        None \<Rightarrow> (0, s)
      | Some h \<Rightarrow>
          (case heap s h of
             Some (EC_KEY k) \<Rightarrow>
               if ok then (1, s\<lparr>heap := (heap s)(pk \<mapsto> EVP_PKEY (PKEY_EC k))\<rparr>) else (0, s)
           | _ \<Rightarrow> (0, s)))"

definition EVP_PKEY_derive_init :: "bool \<Rightarrow> handle \<Rightarrow> state \<Rightarrow> int \<times> state" where
  "EVP_PKEY_derive_init ok ctx s = (if ok then (1, s) else (0, s))"

text \<open>Two keys have the same parameters when both are EC keys on the same curve.\<close>

definition same_parameters :: "pkey \<Rightarrow> pkey \<Rightarrow> bool" where
  "same_parameters a b =
     (case (a, b) of (PKEY_EC x, PKEY_EC y) \<Rightarrow> curve_nid x = curve_nid y | _ \<Rightarrow> False)"

text \<open>
  \<open>EVP_PKEY_derive_set_peer(ctx, peer)\<close>: the context takes the peer key. The library
  refuses a peer whose type or curve differs from that of the context's own key, and
  binds no peer then. It reports the refusal with an error code; in the releases where
  that code is negative the test of the source lets it pass, and the length query that
  follows fails for want of a peer, with the same variables set and the same result
  for the caller. Here the refusal is reported like every other failure.
\<close>

definition EVP_PKEY_derive_set_peer :: "bool \<Rightarrow> handle \<Rightarrow> handle \<Rightarrow> state \<Rightarrow> int \<times> state" where
  "EVP_PKEY_derive_set_peer ok ctx peer s =
     (case (heap s ctx, heap s peer) of
        (Some (EVP_PKEY_CTX c), Some (EVP_PKEY k)) \<Rightarrow>
          if ok \<and> same_parameters (ctx_pkey c) k
          then (1, s\<lparr>heap := (heap s)(ctx \<mapsto> EVP_PKEY_CTX (c\<lparr>ctx_peer := Some k\<rparr>))\<rparr>)
          else (0, s)
      | _ \<Rightarrow> (0, s))"

text \<open>
  \<open>EVP_PKEY_derive(ctx, key, &keylen)\<close> for an EC context; \<open>sec\<close> is the shared secret
  the library computes for the context's key and peer, as long as the field. With \<open>key\<close>
  NULL the call stores that length in \<open>*keylen\<close>. Otherwise it copies the secret into
  the buffer, cut to the \<open>*keylen\<close> it was given, and stores the number of bytes
  copied. The result is the return value, the new \<open>*keylen\<close> and the state.
\<close>

definition EVP_PKEY_derive ::
  "bool \<Rightarrow> byte list \<Rightarrow> handle \<Rightarrow> handle option \<Rightarrow> nat \<Rightarrow> state \<Rightarrow> int \<times> nat \<times> state" where
  "EVP_PKEY_derive ok sec ctx key keylen s =
     (if \<not> ok then (0, keylen, s)
      else (case key of
              None \<Rightarrow> (1, length sec, s)
            | Some b \<Rightarrow>
                (case heap s b of
                   Some (BUF cap old) \<Rightarrow>
                     (1, min keylen (length sec),
                      s\<lparr>heap := (heap s)(b \<mapsto> BUF cap (take (min keylen (length sec)) sec))\<rparr>)
                 | _ \<Rightarrow> (0, keylen, s))))"

text \<open>\<open>OPENSSL_malloc(num)\<close>: NULL for a request of no bytes or when memory is short.\<close>

definition OPENSSL_malloc :: "bool \<Rightarrow> nat \<Rightarrow> state \<Rightarrow> handle option \<times> state" where
  "OPENSSL_malloc ok num s =
     (if num = 0 \<or> \<not> ok then (None, s)
      else (case alloc (BUF num []) s of (h, s') \<Rightarrow> (Some h, s')))"

definition OPENSSL_free :: "handle \<Rightarrow> state \<Rightarrow> state" where
  "OPENSSL_free h s = release h s"

definition fprintf_stderr :: "out_event \<Rightarrow> state \<Rightarrow> state" where
  "fprintf_stderr e s = s\<lparr>stderr := stderr s @ [e]\<rparr>"

subsection \<open>key_shared_secret\<close>

text \<open>What the library is free to choose during one call of \<open>key_shared_secret\<close>.\<close>

record secret_env =
  ctx_new_id_ok :: bool
  paramgen_init_ok :: bool
  set_curve_ok :: bool
  paramgen_ok :: bool
  kctx_new_ok :: bool
  keygen_init_ok :: bool
  keygen_ok :: bool
  ephemeral_d :: nat
  ephemeral_q :: "nat \<times> nat"
  pkey_new_ok :: bool
  set1_ok :: bool
  sctx_new_ok :: bool
  derive_init_ok :: bool
  set_peer_ok :: bool
  derive_len_ok :: bool
  malloc_ok :: bool
  derive_ok :: bool
  ecdh_secret :: "byte list"

text \<open>The pointer variables of the function, all NULL at first.\<close>

record locals =
  v_pctx :: "handle option"
  v_kctx :: "handle option"
  v_sctx :: "handle option"
  v_params :: "handle option"
  v_key :: "handle option"
  v_g_a :: "handle option"
  v_secret :: "handle option"

definition locals0 :: locals where
  "locals0 =
     \<lparr>v_pctx = None, v_kctx = None, v_sctx = None, v_params = None, v_key = None,
      v_g_a = None, v_secret = None\<rparr>"

text \<open>The code from the label \<open>cleanup\<close> to the return; \<open>slen\<close> is what \<open>*slen\<close> holds.\<close>

definition key_shared_secret_cleanup :: "locals \<Rightarrow> nat \<Rightarrow> state \<Rightarrow> handle option \<times> nat \<times> state" where
  "key_shared_secret_cleanup l slen s =
     (let s1 = if_not_NULL (v_sctx l) EVP_PKEY_CTX_free s;
          s2 = if_not_NULL (v_g_a l) EVP_PKEY_free s1;
          s3 = if_not_NULL (v_key l) EVP_PKEY_free s2;
          s4 = if_not_NULL (v_kctx l) EVP_PKEY_CTX_free s3;
          s5 = if_not_NULL (v_params l) EVP_PKEY_free s4;
          s6 = if_not_NULL (v_pctx l) EVP_PKEY_CTX_free s5
      in (v_secret l, slen, s6))"

text \<open>An error exit: \<open>error_type= e_crypto; goto cleanup;\<close>\<close>

definition crypto_error_exit :: "locals \<Rightarrow> nat \<Rightarrow> state \<Rightarrow> handle option \<times> nat \<times> state" where
  "crypto_error_exit l slen s = key_shared_secret_cleanup l slen (set_error_type e_crypto s)"

text \<open>
  The result is the returned pointer, the value of \<open>*slen\<close> at the return and the state.
  Lines 177 to 195 of the source are \<open>key_shared_secret_derive\<close>, lines 146 to 175
  \<open>key_shared_secret_peer\<close>, lines 128 to 144 \<open>key_shared_secret_keygen\<close>; each runs to
  the end of the function, from the variables \<open>l\<close> and the \<open>*slen\<close> it is entered with.
\<close>

definition key_shared_secret_derive ::
  "secret_env \<Rightarrow> locals \<Rightarrow> nat \<Rightarrow> handle \<Rightarrow> state \<Rightarrow> handle option \<times> nat \<times> state" where
  "key_shared_secret_derive env l slen sctx s =
     (case EVP_PKEY_derive (derive_len_ok env) (ecdh_secret env) sctx None slen s of
        (r1, slen1, s1) \<Rightarrow>
      if r1 = 0 then crypto_error_exit l slen1 s1
      else
      (case OPENSSL_malloc (malloc_ok env) slen1 (fprintf_stderr (Out_slen slen1) s1) of
        (None, s2) \<Rightarrow> crypto_error_exit l slen1 s2
      | (Some secret, s2) \<Rightarrow>
      (case EVP_PKEY_derive (derive_ok env) (ecdh_secret env) sctx (Some secret) slen1
              (fprintf_stderr (Out_secret secret) s2) of
        (r3, slen3, s3) \<Rightarrow>
          if r3 = 0
          then key_shared_secret_cleanup (l\<lparr>v_secret := None\<rparr>) slen3
                 (OPENSSL_free secret (set_error_type e_crypto s3))
          else key_shared_secret_cleanup (l\<lparr>v_secret := Some secret\<rparr>) slen3 s3)))"

definition key_shared_secret_peer ::
  "secret_env \<Rightarrow> locals \<Rightarrow> nat \<Rightarrow> handle option \<Rightarrow> state \<Rightarrow> handle option \<times> nat \<times> state" where
  "key_shared_secret_peer env l slen ec_g_a s =
     (case EVP_PKEY_new (pkey_new_ok env) s of
        (None, s1) \<Rightarrow> crypto_error_exit l slen s1
      | (Some g_a, s1) \<Rightarrow>
      (case EVP_PKEY_set1_EC_KEY (set1_ok env) g_a ec_g_a s1 of
        (r2, s2) \<Rightarrow>
      if r2 = 0 then crypto_error_exit (l\<lparr>v_g_a := Some g_a\<rparr>) slen s2
      else
      (case EVP_PKEY_CTX_new (sctx_new_ok env) (v_key l) s2 of
        (None, s3) \<Rightarrow> crypto_error_exit (l\<lparr>v_g_a := Some g_a\<rparr>) slen s3
      | (Some sctx, s3) \<Rightarrow>
      (case EVP_PKEY_derive_init (derive_init_ok env) sctx s3 of
        (r4, s4) \<Rightarrow>
      if r4 = 0 then crypto_error_exit (l\<lparr>v_g_a := Some g_a, v_sctx := Some sctx\<rparr>) slen s4
      else
      (case EVP_PKEY_derive_set_peer (set_peer_ok env) sctx g_a s4 of
        (r5, s5) \<Rightarrow>
      if r5 = 0 then crypto_error_exit (l\<lparr>v_g_a := Some g_a, v_sctx := Some sctx\<rparr>) slen s5
      else
        key_shared_secret_derive env (l\<lparr>v_g_a := Some g_a, v_sctx := Some sctx\<rparr>) slen
          sctx s5)))))"

definition key_shared_secret_keygen ::
  "secret_env \<Rightarrow> locals \<Rightarrow> nat \<Rightarrow> handle option \<Rightarrow> state \<Rightarrow> handle option \<times> nat \<times> state" where
  "key_shared_secret_keygen env l slen ec_g_a s =
     (case EVP_PKEY_CTX_new (kctx_new_ok env) (v_params l) s of
        (None, s1) \<Rightarrow> crypto_error_exit l slen s1
      | (Some kctx, s1) \<Rightarrow>
      (case EVP_PKEY_keygen_init (keygen_init_ok env) kctx s1 of
        (r2, s2) \<Rightarrow>
      if r2 = 0 then crypto_error_exit (l\<lparr>v_kctx := Some kctx\<rparr>) slen s2
      else
      (case EVP_PKEY_keygen (keygen_ok env) (ephemeral_d env) (ephemeral_q env) kctx s2 of
        (r3, key, s3) \<Rightarrow>
      if r3 = 0 then crypto_error_exit (l\<lparr>v_kctx := Some kctx, v_key := key\<rparr>) slen s3
      else
        key_shared_secret_peer env (l\<lparr>v_kctx := Some kctx, v_key := key\<rparr>) slen ec_g_a s3)))"

definition key_shared_secret ::
  "secret_env \<Rightarrow> handle option \<Rightarrow> state \<Rightarrow> handle option \<times> nat \<times> state" where
  "key_shared_secret env ec_g_a s0 =
     (let slen = 0; s1 = set_error_type e_none s0 in
      case EVP_PKEY_CTX_new_id (ctx_new_id_ok env) s1 of
        (None, s2) \<Rightarrow> crypto_error_exit locals0 slen s2
      | (Some pctx, s2) \<Rightarrow>
      (case EVP_PKEY_paramgen_init (paramgen_init_ok env) pctx s2 of
        (r3, s3) \<Rightarrow>
      if r3 = 0 then crypto_error_exit (locals0\<lparr>v_pctx := Some pctx\<rparr>) slen s3
      else
      (case EVP_PKEY_CTX_set_ec_paramgen_curve_nid (set_curve_ok env) pctx
              NID_X9_62_prime256v1 s3 of
        (r4, s4) \<Rightarrow>
      if r4 = 0 then crypto_error_exit (locals0\<lparr>v_pctx := Some pctx\<rparr>) slen s4
      else
      (case EVP_PKEY_paramgen (paramgen_ok env) pctx s4 of
        (r5, params, s5) \<Rightarrow>
      if r5 = 0
      then crypto_error_exit (locals0\<lparr>v_pctx := Some pctx, v_params := params\<rparr>) slen s5
      else
        key_shared_secret_keygen env (locals0\<lparr>v_pctx := Some pctx, v_params := params\<rparr>)
          slen ec_g_a s5))))"

subsection \<open>key_perror\<close>

text \<open>\<open>perror(s)\<close> writes the string, when there is one, and the text of the current
  \<open>errno\<close>.\<close>

definition perror :: "addr option \<Rightarrow> state \<Rightarrow> state" where
  "perror p s = fprintf_stderr (Out_perror (map_option (cstr s) p) (errno s)) s"

definition ERR_print_errors_fp :: "state \<Rightarrow> state" where
  "ERR_print_errors_fp s = fprintf_stderr Out_ERR_queue s"

definition key_perror :: "addr \<Rightarrow> state \<Rightarrow> state" where
  "key_perror prefix s0 =
     (let s = fprintf_stderr (Out_prefix (cstr s0 prefix)) s0 in
      if error_type s = e_none then fprintf_stderr Out_no_error s
      else if error_type s = e_system then perror (ep s) s
      else if error_type s = e_crypto then ERR_print_errors_fp s
      else s)"

text \<open>A call of the application between two calls of this module that leaves a new
  \<open>errno\<close> behind.\<close>

definition other_system_call :: "int \<Rightarrow> state \<Rightarrow> state" where
  "other_system_call e s = s\<lparr>errno := e\<rparr>"

subsection \<open>Vocabulary of the properties\<close>

text \<open>The usual fixed-width little-endian encoding of a number, as a peer writes it.\<close>

fun nat2lebin :: "nat \<Rightarrow> nat \<Rightarrow> byte list" where
  "nat2lebin 0 n = []"
| "nat2lebin (Suc len) n = of_nat (n mod 256) # nat2lebin len (n div 256)"

text \<open>The streams that are open.\<close>

definition open_files :: "state \<Rightarrow> handle set" where
  "open_files s = {h. \<exists>p. heap s h = Some (FILE_stream p)}"

text \<open>
  What a call from state \<open>s\<close> to state \<open>s'\<close> did to \<open>error_type\<close>: it assigned
  \<open>e_none\<close> once and, exactly when the call failed, one more value, which is not
  \<open>e_none\<close> and is the one left behind.
\<close>

definition error_set_once :: "state \<Rightarrow> state \<Rightarrow> bool \<Rightarrow> bool" where
  "error_set_once s s' failed =
     (if failed
      then error_type s' \<noteq> e_none \<and> error_writes s' = error_writes s @ [e_none, error_type s']
      else error_type s' = e_none \<and> error_writes s' = error_writes s @ [e_none])"

text \<open>The objects the cleanup code of \<open>key_shared_secret\<close> releases, and a heap without
  them.\<close>

definition owned :: "locals \<Rightarrow> handle set" where
  "owned l = set_option (v_pctx l) \<union> set_option (v_kctx l) \<union> set_option (v_sctx l)
     \<union> set_option (v_params l) \<union> set_option (v_key l) \<union> set_option (v_g_a l)"

definition swept :: "locals \<Rightarrow> (handle \<rightharpoonup> obj) \<Rightarrow> (handle \<rightharpoonup> obj)" where
  "swept l m = (\<lambda>x. if x \<in> owned l then None else m x)"

definition fresh_above :: "state \<Rightarrow> locals \<Rightarrow> bool" where
  "fresh_above s l \<longleftrightarrow> (\<forall>x. next_handle s \<le> x \<longrightarrow> heap s x = None \<and> x \<notin> owned l)"

text \<open>The argument of \<open>key_shared_secret\<close> is a live EC key on P-256.\<close>

definition peer_is_p256_key :: "handle option \<Rightarrow> state \<Rightarrow> bool" where
  "peer_is_p256_key ec_g_a s =
     (case ec_g_a of None \<Rightarrow> False
      | Some h \<Rightarrow>
          (case heap s h of
             Some (EC_KEY k) \<Rightarrow> curve_nid k = NID_X9_62_prime256v1
           | _ \<Rightarrow> False))"

text \<open>
  The steps of \<open>key_shared_secret\<close> in the order of the source: parameter generation,
  generation of the ephemeral key, wrapping of the peer key with the setup of the
  derivation, and the length query, the allocation and the derivation. Binding the peer
  fails when the argument is not an EC key on the curve of the ephemeral key, which is
  P-256. The allocation fails when memory is short or when the length queried is zero.
\<close>

definition start_steps_ok :: "secret_env \<Rightarrow> bool" where
  "start_steps_ok env \<longleftrightarrow>
     ctx_new_id_ok env \<and> paramgen_init_ok env \<and> set_curve_ok env \<and> paramgen_ok env"

definition keygen_steps_ok :: "secret_env \<Rightarrow> bool" where
  "keygen_steps_ok env \<longleftrightarrow> kctx_new_ok env \<and> keygen_init_ok env \<and> keygen_ok env"

definition peer_steps_ok :: "secret_env \<Rightarrow> handle option \<Rightarrow> state \<Rightarrow> bool" where
  "peer_steps_ok env ec_g_a s \<longleftrightarrow>
     pkey_new_ok env \<and> set1_ok env \<and> peer_is_p256_key ec_g_a s \<and> sctx_new_ok env \<and>
     derive_init_ok env \<and> set_peer_ok env"

definition derive_steps_ok :: "secret_env \<Rightarrow> bool" where
  "derive_steps_ok env \<longleftrightarrow>
     derive_len_ok env \<and> ecdh_secret env \<noteq> [] \<and> malloc_ok env \<and> derive_ok env"

definition reaches_length_query :: "secret_env \<Rightarrow> handle option \<Rightarrow> state \<Rightarrow> bool" where
  "reaches_length_query env ec_g_a s \<longleftrightarrow>
     start_steps_ok env \<and> keygen_steps_ok env \<and> peer_steps_ok env ec_g_a s"

definition all_steps_succeed :: "secret_env \<Rightarrow> handle option \<Rightarrow> state \<Rightarrow> bool" where
  "all_steps_succeed env ec_g_a s \<longleftrightarrow>
     reaches_length_query env ec_g_a s \<and> derive_steps_ok env"

text \<open>
  What the rest of \<open>key_shared_secret\<close> yields from the variables \<open>l\<close>, the state \<open>s\<close>
  and the \<open>*slen\<close> it is entered with: when the remaining steps succeed (\<open>ok\<close>), the
  buffer \<open>b\<close> filled with the secret, its length, and nothing else left of what \<open>l\<close>
  holds; otherwise NULL, nothing left at all, \<open>e_crypto\<close> assigned once, and in \<open>*slen\<close>
  the length queried if the query was passed (\<open>queried\<close>).
\<close>

definition stage_outcome ::
  "byte list \<Rightarrow> bool \<Rightarrow> bool \<Rightarrow> nat \<Rightarrow> handle \<Rightarrow> locals \<Rightarrow> state \<Rightarrow>
   handle option \<times> nat \<times> state \<Rightarrow> bool" where
  "stage_outcome sec ok queried slen b l s res =
     (case res of (r, n, st) \<Rightarrow>
        ep st = ep s \<and> next_handle s \<le> next_handle st \<and>
        (if ok
         then r = Some b \<and> b < next_handle st \<and> n = length sec \<and> sec \<noteq> []
              \<and> heap st = (swept l (heap s))(b \<mapsto> BUF (length sec) sec)
              \<and> error_type st = error_type s \<and> error_writes st = error_writes s
         else r = None \<and> heap st = swept l (heap s) \<and> error_type st = e_crypto
              \<and> error_writes st = error_writes s @ [e_crypto]
              \<and> n = (if queried then length sec else slen)))"

subsection \<open>Sample inputs\<close>

text \<open>
  A state as the program starts (\<open>error_type= e_none\<close>, \<open>ep= NULL\<close>, nothing allocated,
  nothing printed), with a file \<open>p384.pem\<close> that holds an EC private key on secp384r1 and
  no other file, and with the strings \<open>missing.pem\<close>, \<open>p384.pem\<close> and \<open>eckey\<close> at the
  addresses 0, 1 and 2.
\<close>

definition p384_key :: ec_key where
  "p384_key = \<lparr>curve_nid = NID_secp384r1, pub_key = None, priv_key = Some 1\<rparr>"

definition sample_state :: state where
  "sample_state =
     \<lparr>error_type = e_none, ep = None, error_writes = [], heap = Map.empty, next_handle = 0,
      files = (\<lambda>p. if p = ''p384.pem'' then Readable (Some (PKEY_EC p384_key))
                   else Unopenable 2),
      cstr = (\<lambda>a. if a = 0 then ''missing.pem'' else if a = 1 then ''p384.pem''
                   else if a = 2 then ''eckey'' else []),
      errno = 0, stderr = []\<rparr>"

definition load_env_ok :: load_env where
  "load_env_ok = \<lparr>load_pkey_new_ok = True, pem_read_ok = True\<rparr>"

definition sgx_env_ok :: sgx_env where
  "sgx_env_ok =
     \<lparr>bn_gx_ok = True, bn_gy_ok = True, ec_key_new_ok = True, set_affine_ok = True\<rparr>"

text \<open>The base point of P-256 on the wire, and a pair that is not on the curve.\<close>

definition generator_on_wire :: sgx_ec256_public_t where
  "generator_on_wire = \<lparr>gx = nat2lebin 32 p256_Gx, gy = nat2lebin 32 p256_Gy\<rparr>"

definition off_curve_on_wire :: sgx_ec256_public_t where
  "off_curve_on_wire = \<lparr>gx = nat2lebin 32 2, gy = nat2lebin 32 2\<rparr>"

text \<open>The state after a \<open>key_load_file\<close> of the missing file.\<close>

definition state_after_failed_load :: state where
  "state_after_failed_load = snd (snd (key_load_file load_env_ok None 0 sample_state))"

text \<open>The state after a \<open>key_load_file\<close> of \<open>p384.pem\<close>; the key it returns is at
  handle 2.\<close>

definition state_after_p384_load :: state where
  "state_after_p384_load = snd (snd (key_load_file load_env_ok None 1 sample_state))"

text \<open>A state that holds the base point as a peer key, at handle 0.\<close>

definition peer_state :: state where
  "peer_state =
     sample_state
       \<lparr>heap := [0 \<mapsto> EC_KEY \<lparr>curve_nid = NID_X9_62_prime256v1,
                               pub_key = Some (p256_Gx, p256_Gy), priv_key = None\<rparr>],
        next_handle := 1\<rparr>"

text \<open>A run of \<open>key_shared_secret\<close> in which every step succeeds and the secret has 32
  bytes, and the same run with no memory for the buffer.\<close>

definition secret_env_ok :: secret_env where
  "secret_env_ok =
     \<lparr>ctx_new_id_ok = True, paramgen_init_ok = True, set_curve_ok = True, paramgen_ok = True,
      kctx_new_ok = True, keygen_init_ok = True, keygen_ok = True, ephemeral_d = 1,
      ephemeral_q = (p256_Gx, p256_Gy), pkey_new_ok = True, set1_ok = True,
      sctx_new_ok = True, derive_init_ok = True, set_peer_ok = True, derive_len_ok = True,
      malloc_ok = True, derive_ok = True, ecdh_secret = nat2lebin 32 p256_Gx\<rparr>"

definition secret_env_no_memory :: secret_env where
  "secret_env_no_memory = secret_env_ok\<lparr>malloc_ok := False\<rparr>"

section \<open>Properties\<close>

subsection \<open>Auxiliary facts\<close>

lemma lebin2nat_nat2lebin: "lebin2nat (nat2lebin len n) = n mod 256 ^ len"
proof (induction len arbitrary: n)
  case 0
  show ?case by simp
next
  case (Suc len)
  have "unat (of_nat (n mod 256) :: byte) = n mod 256"
    by (simp add: unat_of_nat)
  then show ?case
    using Suc.IH [of "n div 256"] by (simp add: mod_mult2_eq)
qed

lemma length_nat2lebin: "length (nat2lebin len n) = len"
  by (induction len arbitrary: n) simp_all

lemma p256_p_bound: "p256_p < 256 ^ 32"
  by (simp add: p256_p_def)

lemma decode_wire:
  assumes "x < p256_p"
  shows "lebin2nat (take 32 (nat2lebin 32 x)) = x"
  using assms p256_p_bound by (simp add: length_nat2lebin lebin2nat_nat2lebin)

lemma if_not_NULL_release:
  "if_not_NULL x release s =
     s\<lparr>heap := (\<lambda>y. if y \<in> set_option x then None else heap s y)\<rparr>"
  by (cases x) (simp_all add: if_not_NULL_def release_def fun_eq_iff)

lemma free_is_release:
  "EVP_PKEY_CTX_free = release" "EVP_PKEY_free = release" "BN_free = release"
  by (simp_all add: fun_eq_iff EVP_PKEY_CTX_free_def EVP_PKEY_free_def BN_free_def)

lemma state_update_order:
  "s\<lparr>next_handle := n, heap := m\<rparr> = s\<lparr>heap := m, next_handle := n\<rparr>"
  by simp

lemma key_shared_secret_cleanup_eq:
  "key_shared_secret_cleanup l n s = (v_secret l, n, s\<lparr>heap := swept l (heap s)\<rparr>)"
  by (auto simp add: key_shared_secret_cleanup_def free_is_release
      if_not_NULL_release Let_def swept_def owned_def fun_eq_iff)

lemma crypto_error_exit_eq:
  "crypto_error_exit l n s =
     (v_secret l, n, s\<lparr>error_type := e_crypto, error_writes := error_writes s @ [e_crypto],
        heap := swept l (heap s)\<rparr>)"
  by (simp add: crypto_error_exit_def key_shared_secret_cleanup_eq set_error_type_def)

lemma key_shared_secret_derive_outcome:
  assumes fr: "fresh_above s l" and sec: "v_secret l = None"
  shows "stage_outcome (ecdh_secret env) (derive_steps_ok env) (derive_len_ok env) slen
           (next_handle s) l s (key_shared_secret_derive env l slen sctx s)"
proof -
  have f: "heap s (next_handle s) = None" "next_handle s \<notin> owned l"
    using fr by (simp_all add: fresh_above_def)
  show ?thesis using f sec
    by (simp add: key_shared_secret_derive_def stage_outcome_def derive_steps_ok_def
        crypto_error_exit_eq key_shared_secret_cleanup_eq EVP_PKEY_derive_def OPENSSL_malloc_def
        OPENSSL_free_def fprintf_stderr_def set_error_type_def alloc_def release_def
        swept_def owned_def fun_eq_iff)
qed


lemmas peer_call_defs = EVP_PKEY_new_def EVP_PKEY_set1_EC_KEY_def EVP_PKEY_CTX_new_def
  EVP_PKEY_derive_init_def EVP_PKEY_derive_set_peer_def same_parameters_def alloc_def

lemma key_shared_secret_peer_fails:
  assumes fr: "fresh_above s l" and sec: "v_secret l = None"
    and ga: "v_g_a l = None" and sc: "v_sctx l = None"
    and key: "v_key l = Some kh" "heap s kh = Some (EVP_PKEY (PKEY_EC ek))"
      "curve_nid ek = NID_X9_62_prime256v1"
    and bad: "\<not> peer_steps_ok env ec_g_a s"
  shows "stage_outcome (ecdh_secret env) False False slen b l s
           (key_shared_secret_peer env l slen ec_g_a s)"
proof -
  have f: "heap s (next_handle s) = None" "next_handle s \<notin> owned l"
    "heap s (Suc (next_handle s)) = None" "Suc (next_handle s) \<notin> owned l"
    using fr by (simp_all add: fresh_above_def)
  have kh: "kh \<noteq> next_handle s" using key f by auto
  show ?thesis
  proof (cases ec_g_a)
    case None
    then show ?thesis using f sec ga sc key kh
      by (simp add: key_shared_secret_peer_def stage_outcome_def crypto_error_exit_eq
          peer_call_defs swept_def owned_def fun_eq_iff)
  next
    case (Some h)
    show ?thesis
    proof (cases "\<exists>e. heap s h = Some (EC_KEY e)")
      case True
      then obtain e where e: "heap s h = Some (EC_KEY e)" by blast
      then have hn: "h \<noteq> next_handle s" using f by auto
      have sym: "NID_X9_62_prime256v1 = curve_nid e \<longleftrightarrow> curve_nid e = NID_X9_62_prime256v1"
        by auto
      show ?thesis
      proof (cases "curve_nid e = NID_X9_62_prime256v1")
        case True
        then show ?thesis using bad f sec ga sc key kh Some e hn
          by (simp add: key_shared_secret_peer_def stage_outcome_def crypto_error_exit_eq
            peer_steps_ok_def peer_is_p256_key_def
            peer_call_defs swept_def owned_def fun_eq_iff)
      next
        case False
        then show ?thesis using f sec ga sc key kh Some e hn
          by (simp add: sym key_shared_secret_peer_def stage_outcome_def crypto_error_exit_eq
            peer_call_defs swept_def owned_def fun_eq_iff)
      qed
    next
      case False
      then have "case (if h = next_handle s then Some (EVP_PKEY PKEY_empty) else heap s h) of
         Some (EC_KEY e) \<Rightarrow> False | _ \<Rightarrow> True"
        by (auto split: option.splits obj.splits)
      then show ?thesis using f sec ga sc key kh Some
        by (auto simp add: key_shared_secret_peer_def stage_outcome_def crypto_error_exit_eq
          peer_call_defs swept_def owned_def fun_eq_iff split: option.splits obj.splits)
    qed
  qed
qed


lemma key_shared_secret_peer_continues:
  assumes fr: "fresh_above s l"
    and key: "v_key l = Some kh" "heap s kh = Some (EVP_PKEY (PKEY_EC ek))"
      "curve_nid ek = NID_X9_62_prime256v1"
    and peer: "ec_g_a = Some h" "heap s h = Some (EC_KEY e)"
    and ok: "peer_steps_ok env ec_g_a s"
  shows "key_shared_secret_peer env l slen ec_g_a s =
           key_shared_secret_derive env
             (l\<lparr>v_g_a := Some (next_handle s), v_sctx := Some (Suc (next_handle s))\<rparr>) slen
             (Suc (next_handle s))
             (s\<lparr>next_handle := Suc (Suc (next_handle s)),
                heap := (heap s)(next_handle s \<mapsto> EVP_PKEY (PKEY_EC e),
                   Suc (next_handle s) \<mapsto>
                     EVP_PKEY_CTX \<lparr>ctx_nid = None, ctx_pkey = PKEY_EC ek,
                                   ctx_peer = Some (PKEY_EC e)\<rparr>)\<rparr>)"
proof -
  have f: "heap s (next_handle s) = None" using fr by (simp add: fresh_above_def)
  have ne: "kh \<noteq> next_handle s" "h \<noteq> next_handle s" using key peer f by auto
  have sym: "NID_X9_62_prime256v1 = curve_nid e \<longleftrightarrow> curve_nid e = NID_X9_62_prime256v1"
    by auto
  show ?thesis using ok key peer ne
    by (simp add: sym key_shared_secret_peer_def peer_steps_ok_def peer_is_p256_key_def
        peer_call_defs)
qed

lemma key_shared_secret_peer_outcome:
  assumes fr: "fresh_above s l" and sec: "v_secret l = None"
    and ga: "v_g_a l = None" and sc: "v_sctx l = None"
    and key: "v_key l = Some kh" "heap s kh = Some (EVP_PKEY (PKEY_EC ek))"
      "curve_nid ek = NID_X9_62_prime256v1"
  shows "stage_outcome (ecdh_secret env)
           (peer_steps_ok env ec_g_a s \<and> derive_steps_ok env)
           (peer_steps_ok env ec_g_a s \<and> derive_len_ok env) slen
           (Suc (Suc (next_handle s))) l s (key_shared_secret_peer env l slen ec_g_a s)"
proof (cases "peer_steps_ok env ec_g_a s")
  case False
  then show ?thesis
    using key_shared_secret_peer_fails [OF fr sec ga sc key False, of slen "Suc (Suc (next_handle s))"]
    by simp
next
  case True
  then obtain h e where peer: "ec_g_a = Some h" "heap s h = Some (EC_KEY e)"
    by (auto simp add: peer_steps_ok_def peer_is_p256_key_def split: option.splits obj.splits)
  let ?l = "l\<lparr>v_g_a := Some (next_handle s), v_sctx := Some (Suc (next_handle s))\<rparr>"
  let ?s = "s\<lparr>next_handle := Suc (Suc (next_handle s)),
                heap := (heap s)(next_handle s \<mapsto> EVP_PKEY (PKEY_EC e),
                   Suc (next_handle s) \<mapsto>
                     EVP_PKEY_CTX \<lparr>ctx_nid = None, ctx_pkey = PKEY_EC ek,
                                   ctx_peer = Some (PKEY_EC e)\<rparr>)\<rparr>"
  have fr': "fresh_above ?s ?l"
    using fr ga sc by (auto simp add: fresh_above_def owned_def)
  have sw: "swept ?l (heap ?s) = swept l (heap s)"
    using fr ga sc by (auto simp add: fresh_above_def swept_def owned_def fun_eq_iff)
  have d: "stage_outcome (ecdh_secret env) (derive_steps_ok env) (derive_len_ok env) slen
           (next_handle ?s) ?l ?s (key_shared_secret_derive env ?l slen (Suc (next_handle s)) ?s)"
    using sec by (intro key_shared_secret_derive_outcome [OF fr']) simp
  show ?thesis
    using d True sw
    unfolding key_shared_secret_peer_continues [OF fr key peer True]
    by (cases "key_shared_secret_derive env ?l slen (Suc (next_handle s)) ?s")
       (simp add: stage_outcome_def)
qed


lemmas keygen_call_defs = EVP_PKEY_CTX_new_def EVP_PKEY_keygen_init_def EVP_PKEY_keygen_def
  alloc_def

lemma peer_is_p256_key_alloc:
  assumes "heap s' = (heap s)(a \<mapsto> va, b \<mapsto> vb)"
    and "heap s a = None" "heap s b = None" "\<And>e. va \<noteq> EC_KEY e" "\<And>e. vb \<noteq> EC_KEY e"
  shows "peer_is_p256_key ec_g_a s' = peer_is_p256_key ec_g_a s"
  using assms by (cases va; cases vb) (auto simp add: peer_is_p256_key_def split: option.splits obj.splits)

lemma key_shared_secret_keygen_outcome:
  assumes fr: "fresh_above s l" and sec: "v_secret l = None"
    and ga: "v_g_a l = None" and sc: "v_sctx l = None"
    and kc: "v_kctx l = None" and ke: "v_key l = None"
    and par: "v_params l = Some ph" "heap s ph = Some (EVP_PKEY (PKEY_EC pk))"
      "curve_nid pk = NID_X9_62_prime256v1"
  shows "stage_outcome (ecdh_secret env)
           (keygen_steps_ok env \<and> peer_steps_ok env ec_g_a s \<and> derive_steps_ok env)
           (keygen_steps_ok env \<and> peer_steps_ok env ec_g_a s \<and> derive_len_ok env) slen
           (Suc (Suc (Suc (Suc (next_handle s))))) l s
           (key_shared_secret_keygen env l slen ec_g_a s)"
proof (cases "keygen_steps_ok env")
  case False
  have f: "heap s (next_handle s) = None" "next_handle s \<notin> owned l"
    using fr by (simp_all add: fresh_above_def)
  have ne: "ph \<noteq> next_handle s" using par f by auto
  show ?thesis using False f sec ga sc kc ke par ne
    by (simp add: key_shared_secret_keygen_def stage_outcome_def crypto_error_exit_eq
        keygen_steps_ok_def keygen_call_defs swept_def owned_def fun_eq_iff)
next
  case True
  let ?l = "l\<lparr>v_kctx := Some (next_handle s), v_key := Some (Suc (next_handle s))\<rparr>"
  let ?k = "PKEY_EC (pk\<lparr>pub_key := Some (ephemeral_q env), priv_key := Some (ephemeral_d env)\<rparr>)"
  let ?s = "s\<lparr>next_handle := Suc (Suc (next_handle s)),
                heap := (heap s)(next_handle s \<mapsto>
                     EVP_PKEY_CTX \<lparr>ctx_nid = None, ctx_pkey = PKEY_EC pk, ctx_peer = None\<rparr>,
                   Suc (next_handle s) \<mapsto> EVP_PKEY ?k)\<rparr>"
  have f: "heap s (next_handle s) = None" "heap s (Suc (next_handle s)) = None"
    using fr by (simp_all add: fresh_above_def)
  have ne: "ph \<noteq> next_handle s" using par f by auto
  have eq: "key_shared_secret_keygen env l slen ec_g_a s = key_shared_secret_peer env ?l slen ec_g_a ?s"
    using True par ne
    by (simp add: key_shared_secret_keygen_def keygen_steps_ok_def keygen_call_defs
        state_update_order)
  have fr': "fresh_above ?s ?l"
    using fr kc ke by (auto simp add: fresh_above_def owned_def)
  have sw: "swept ?l (heap ?s) = swept l (heap s)"
    using fr kc ke by (auto simp add: fresh_above_def swept_def owned_def fun_eq_iff)
  have "peer_is_p256_key ec_g_a ?s = peer_is_p256_key ec_g_a s"
  proof (rule peer_is_p256_key_alloc [where a = "next_handle s" and b = "Suc (next_handle s)"])
    show "heap ?s = (heap s)(next_handle s \<mapsto> EVP_PKEY_CTX \<lparr>ctx_nid = None, ctx_pkey = PKEY_EC pk, ctx_peer = None\<rparr>, Suc (next_handle s) \<mapsto> EVP_PKEY ?k)"
      by simp
  qed (simp_all add: f)
  then have pe: "peer_steps_ok env ec_g_a ?s = peer_steps_ok env ec_g_a s"
    by (simp add: peer_steps_ok_def)
  have d: "stage_outcome (ecdh_secret env)
           (peer_steps_ok env ec_g_a ?s \<and> derive_steps_ok env)
           (peer_steps_ok env ec_g_a ?s \<and> derive_len_ok env) slen
           (Suc (Suc (next_handle ?s))) ?l ?s (key_shared_secret_peer env ?l slen ec_g_a ?s)"
    using sec ga sc
    by (intro key_shared_secret_peer_outcome [OF fr', where kh = "Suc (next_handle s)"
          and ek = "pk\<lparr>pub_key := Some (ephemeral_q env), priv_key := Some (ephemeral_d env)\<rparr>"])
       (simp_all add: par)
  show ?thesis
    using d True sw unfolding eq pe
    by (cases "key_shared_secret_peer env ?l slen ec_g_a ?s") (simp add: stage_outcome_def)
qed


lemmas start_call_defs = EVP_PKEY_CTX_new_id_def EVP_PKEY_paramgen_init_def
  EVP_PKEY_CTX_set_ec_paramgen_curve_nid_def EVP_PKEY_paramgen_def alloc_def Let_def

lemma swept_locals0: "swept locals0 m = m"
  by (simp add: swept_def owned_def locals0_def)

lemma key_shared_secret_outcome:
  assumes wf: "heap_wf s"
  shows "stage_outcome (ecdh_secret env) (all_steps_succeed env ec_g_a s)
           (reaches_length_query env ec_g_a s \<and> derive_len_ok env) 0
           (Suc (Suc (Suc (Suc (Suc (Suc (next_handle s))))))) locals0
           (set_error_type e_none s) (key_shared_secret env ec_g_a s)"
proof (cases "start_steps_ok env")
  case False
  have f: "heap s (next_handle s) = None" "heap s (Suc (next_handle s)) = None"
    using wf by (simp_all add: heap_wf_def)
  show ?thesis using False f
    by (simp add: key_shared_secret_def stage_outcome_def crypto_error_exit_eq
        all_steps_succeed_def reaches_length_query_def
        start_steps_ok_def start_call_defs set_error_type_def swept_def owned_def locals0_def
        fun_eq_iff)
next
  case True
  let ?pk = "\<lparr>curve_nid = NID_X9_62_prime256v1, pub_key = None, priv_key = None\<rparr>"
  let ?l = "locals0\<lparr>v_pctx := Some (next_handle s), v_params := Some (Suc (next_handle s))\<rparr>"
  let ?s = "s\<lparr>error_type := e_none, error_writes := error_writes s @ [e_none],
                heap := (heap s)(next_handle s \<mapsto>
                     EVP_PKEY_CTX \<lparr>ctx_nid = Some NID_X9_62_prime256v1, ctx_pkey = PKEY_empty,
                                   ctx_peer = None\<rparr>,
                   Suc (next_handle s) \<mapsto> EVP_PKEY (PKEY_EC ?pk)),
                next_handle := Suc (Suc (next_handle s))\<rparr>"
  have f: "heap s (next_handle s) = None" "heap s (Suc (next_handle s)) = None"
    using wf by (simp_all add: heap_wf_def)
  have eq: "key_shared_secret env ec_g_a s = key_shared_secret_keygen env ?l 0 ec_g_a ?s"
    using True
    by (simp add: key_shared_secret_def start_steps_ok_def start_call_defs set_error_type_def
        state_update_order)
  have fr': "fresh_above ?s ?l"
    using wf by (auto simp add: fresh_above_def heap_wf_def owned_def locals0_def)
  have sw: "swept ?l (heap ?s) = heap s"
    using wf by (auto simp add: heap_wf_def swept_def owned_def locals0_def fun_eq_iff)
  have "peer_is_p256_key ec_g_a ?s = peer_is_p256_key ec_g_a s"
  proof (rule peer_is_p256_key_alloc [where a = "next_handle s" and b = "Suc (next_handle s)"])
    show "heap ?s = (heap s)(next_handle s \<mapsto> EVP_PKEY_CTX \<lparr>ctx_nid = Some NID_X9_62_prime256v1, ctx_pkey = PKEY_empty, ctx_peer = None\<rparr>, Suc (next_handle s) \<mapsto> EVP_PKEY (PKEY_EC ?pk))"
      by simp
  qed (simp_all add: f)
  then have pe: "peer_steps_ok env ec_g_a ?s = peer_steps_ok env ec_g_a s"
    by (simp add: peer_steps_ok_def)
  have d: "stage_outcome (ecdh_secret env)
           (keygen_steps_ok env \<and> peer_steps_ok env ec_g_a ?s \<and> derive_steps_ok env)
           (keygen_steps_ok env \<and> peer_steps_ok env ec_g_a ?s \<and> derive_len_ok env) 0
           (Suc (Suc (Suc (Suc (next_handle ?s))))) ?l ?s
           (key_shared_secret_keygen env ?l 0 ec_g_a ?s)"
    by (intro key_shared_secret_keygen_outcome [OF fr', where ph = "Suc (next_handle s)" and pk = ?pk])
       (simp_all add: locals0_def)
  show ?thesis
    using d True sw unfolding eq pe
    by (cases "key_shared_secret_keygen env ?l 0 ec_g_a ?s")
       (simp add: stage_outcome_def all_steps_succeed_def reaches_length_query_def
          swept_locals0 set_error_type_def)
qed

lemmas sgx_defs = key_from_sgx_ec256_def key_from_sgx_ec256_cleanup_def BN_lebin2bn_def
  free_is_release if_not_NULL_def EC_KEY_new_by_curve_name_def EC_KEY_free_def
  EC_KEY_set_public_key_affine_coordinates_def set_error_type_def alloc_def release_def Let_def

lemma fresh3:
  assumes "heap_wf s"
  shows "heap s (next_handle s) = None"
    "heap s (Suc (next_handle s)) = None"
    "heap s (Suc (Suc (next_handle s))) = None"
  using assms by (simp_all add: heap_wf_def)

lemma key_from_sgx_ec256_error_set_once:
  "error_set_once s (snd (key_from_sgx_ec256 env k s)) (fst (key_from_sgx_ec256 env k s) = None)
   \<and> ep (snd (key_from_sgx_ec256 env k s)) = ep s"
proof (cases "bn_gx_ok env")
  case False
  then show ?thesis by (simp add: sgx_defs error_set_once_def)
next
  case gx_ok: True
  show ?thesis
  proof (cases "bn_gy_ok env")
    case False
    then show ?thesis using gx_ok by (simp add: sgx_defs error_set_once_def)
  next
    case gy_ok: True
    show ?thesis
    proof (cases "ec_key_new_ok env")
      case False
      then show ?thesis using gx_ok gy_ok by (simp add: sgx_defs error_set_once_def)
    next
      case True
      then show ?thesis using gx_ok gy_ok
        by (simp add: sgx_defs error_set_once_def)
    qed
  qed
qed

subsection \<open>key_from_sgx_ec256\<close>

text \<open>
  Claim C1. For every coordinate pair whose decoded point does not satisfy the curve
  equation of P-256, \<open>key_from_sgx_ec256\<close> returns NULL, leaves \<open>error_type\<close> at
  \<open>e_crypto\<close> and leaves no object behind: the key object it had begun and both big
  numbers are released, so the heap at the return is the heap at the call. This holds
  whatever the library's allocations do.
\<close>

theorem key_from_sgx_ec256_off_curve:
  assumes wf: "heap_wf s"
    and off: "\<not> p256_on_curve (lebin2nat (take 32 (gx k))) (lebin2nat (take 32 (gy k)))"
  shows "fst (key_from_sgx_ec256 env k s) = None
       \<and> error_type (snd (key_from_sgx_ec256 env k s)) = e_crypto
       \<and> heap (snd (key_from_sgx_ec256 env k s)) = heap s"
proof (cases "bn_gx_ok env")
  case False
  then show ?thesis by (simp add: sgx_defs)
next
  case gx_ok: True
  show ?thesis
  proof (cases "bn_gy_ok env")
    case False
    then show ?thesis using gx_ok fresh3 [OF wf] by (simp add: sgx_defs fun_upd_idem)
  next
    case gy_ok: True
    show ?thesis
    proof (cases "ec_key_new_ok env")
      case False
      then show ?thesis using gx_ok gy_ok fresh3 [OF wf] by (simp add: sgx_defs fun_upd_idem)
    next
      case True
      then show ?thesis using gx_ok gy_ok fresh3 [OF wf] off
        by (simp add: sgx_defs fun_upd_idem)
    qed
  qed
qed

lemma heap_wf_sample: "heap_wf sample_state"
  by (simp add: heap_wf_def sample_state_def)

lemma not_on_curve_2_2: "\<not> p256_on_curve 2 2"
  by (simp add: p256_on_curve_def p256_p_def p256_b_def)

theorem key_from_sgx_ec256_off_curve_witness:
  "heap_wf sample_state
   \<and> \<not> p256_on_curve (lebin2nat (take 32 (gx off_curve_on_wire)))
          (lebin2nat (take 32 (gy off_curve_on_wire)))
   \<and> fst (key_from_sgx_ec256 sgx_env_ok off_curve_on_wire sample_state) = None
   \<and> error_type (snd (key_from_sgx_ec256 sgx_env_ok off_curve_on_wire sample_state)) = e_crypto
   \<and> heap (snd (key_from_sgx_ec256 sgx_env_ok off_curve_on_wire sample_state)) = heap sample_state"
proof -
  have one: "(2::nat) < p256_p" by (simp add: p256_p_def)
  have off: "\<not> p256_on_curve (lebin2nat (take 32 (gx off_curve_on_wire)))
          (lebin2nat (take 32 (gy off_curve_on_wire)))"
    using not_on_curve_2_2 by (simp add: off_curve_on_wire_def decode_wire [OF one])
  show ?thesis
    using key_from_sgx_ec256_off_curve [OF heap_wf_sample off, of sgx_env_ok] heap_wf_sample off
    by simp
qed

lemma key_from_sgx_ec256_accepts:
  assumes x: "x < p256_p" and y: "y < p256_p" and on: "p256_on_curve x y"
    and ok: "bn_gx_ok env" "bn_gy_ok env" "ec_key_new_ok env" "set_affine_ok env"
  shows "key_from_sgx_ec256 env \<lparr>gx = nat2lebin 32 x, gy = nat2lebin 32 y\<rparr> s =
           (Some (Suc (Suc (next_handle s))),
            s\<lparr>error_type := e_none, error_writes := error_writes s @ [e_none],
              next_handle := Suc (Suc (Suc (next_handle s))),
              heap := (heap s)(next_handle s := None, Suc (next_handle s) := None,
                Suc (Suc (next_handle s)) \<mapsto>
                  EC_KEY \<lparr>curve_nid = NID_X9_62_prime256v1, pub_key = Some (x, y),
                          priv_key = None\<rparr>)\<rparr>)"
  using x y on ok
  by (simp add: sgx_defs decode_wire fun_eq_iff)

text \<open>
  Claim C2. For every point \<open>(x, y)\<close> of P-256 (both coordinates below the field prime
  and on the curve), \<open>key_from_sgx_ec256\<close> applied to the 32-byte little-endian
  encodings of \<open>x\<close> and \<open>y\<close> returns a key handle, and the key at that handle is on
  P-256 with the public point \<open>(x, y)\<close>, when the library's allocations succeed.
\<close>

theorem key_from_sgx_ec256_round_trip:
  assumes x: "x < p256_p" and y: "y < p256_p" and on: "p256_on_curve x y"
    and ok: "bn_gx_ok env" "bn_gy_ok env" "ec_key_new_ok env" "set_affine_ok env"
  shows "\<exists>key. fst (key_from_sgx_ec256 env \<lparr>gx = nat2lebin 32 x, gy = nat2lebin 32 y\<rparr> s)
             = Some key
          \<and> heap (snd (key_from_sgx_ec256 env \<lparr>gx = nat2lebin 32 x, gy = nat2lebin 32 y\<rparr> s)) key
             = Some (EC_KEY \<lparr>curve_nid = NID_X9_62_prime256v1, pub_key = Some (x, y),
                             priv_key = None\<rparr>)"
  by (simp add: key_from_sgx_ec256_accepts [OF assms])

lemma on_curve_generator: "p256_on_curve p256_Gx p256_Gy"
proof -
  let ?r = "38841243268434338802906935583467503580982897597684987572860931569745790234001 :: nat"
  have l: "p256_Gy * p256_Gy =
      11276107902616505813297874115423378275166393229135779582683496500509631641880 * p256_p + ?r"
    by (simp add: p256_Gy_def p256_p_def)
  have r: "p256_Gx * p256_Gx * p256_Gx + (p256_p - 3) * p256_Gx + p256_b =
      981570988164258562257936101525215858910690391106138407341175333813841188485261487412605372841583104686333854138388118582640433620635866693747671541792774 * p256_p + ?r"
    by (simp add: p256_Gx_def p256_p_def p256_b_def)
  have less: "?r < p256_p"
    by (simp add: p256_p_def)
  show ?thesis
    unfolding p256_on_curve_def l r using less by simp
qed

lemma generator_in_range: "p256_Gx < p256_p" "p256_Gy < p256_p"
  by (simp_all add: p256_Gx_def p256_Gy_def p256_p_def)

theorem key_from_sgx_ec256_round_trip_witness:
  "p256_Gx < p256_p \<and> p256_Gy < p256_p \<and> p256_on_curve p256_Gx p256_Gy
   \<and> bn_gx_ok sgx_env_ok \<and> bn_gy_ok sgx_env_ok \<and> ec_key_new_ok sgx_env_ok
   \<and> set_affine_ok sgx_env_ok
   \<and> (\<exists>key. fst (key_from_sgx_ec256 sgx_env_ok generator_on_wire sample_state) = Some key
        \<and> heap (snd (key_from_sgx_ec256 sgx_env_ok generator_on_wire sample_state)) key
           = Some (EC_KEY \<lparr>curve_nid = NID_X9_62_prime256v1,
                           pub_key = Some (p256_Gx, p256_Gy), priv_key = None\<rparr>))"
proof -
  have ok: "bn_gx_ok sgx_env_ok" "bn_gy_ok sgx_env_ok" "ec_key_new_ok sgx_env_ok"
    "set_affine_ok sgx_env_ok"
    by (simp_all add: sgx_env_ok_def)
  show ?thesis
    using key_from_sgx_ec256_round_trip [OF generator_in_range on_curve_generator ok,
        of sample_state]
      generator_in_range on_curve_generator ok
    unfolding generator_on_wire_def by blast
qed

lemmas load_defs = key_load_file_def EVP_PKEY_new_def fopen_def PEM_read_PrivateKey_def
  fclose_def EVP_PKEY_get1_EC_KEY_def set_error_type_def alloc_def release_def Let_def

lemma key_load_file_unopenable:
  assumes "files s (cstr s filename) = Unopenable e"
  shows "key_load_file env eckey0 filename s =
           (Some 0, eckey0,
            (if load_pkey_new_ok env
             then s\<lparr>heap := (heap s)(next_handle s \<mapsto> EVP_PKEY PKEY_empty),
                    next_handle := Suc (next_handle s)\<rparr>
             else s)
            \<lparr>error_type := e_system, error_writes := error_writes s @ [e_none, e_system],
             errno := e, ep := Some filename\<rparr>)"
  using assms by (simp add: load_defs)

text \<open>What the file holds decides the rest once the open has succeeded.\<close>

lemma key_load_file_readable:
  assumes rd: "files s (cstr s filename) = Readable c"
  shows "case key_load_file env eckey0 filename s of (r, eck, st) \<Rightarrow>
           ep st = ep s \<and> (\<forall>h. heap st h \<noteq> heap s h \<longrightarrow> next_handle s \<le> h \<and> (\<forall>p. heap st h \<noteq> Some (FILE_stream p)))
           \<and> (case r of
                 None \<Rightarrow> True
               | Some v \<Rightarrow>
                   error_set_once s st (v = 0) \<and>
                   (v \<noteq> 0 \<longrightarrow> v = 1 \<and> (\<exists>k h. c = Some (PKEY_EC k) \<and> eck = Some h \<and> heap st h = Some (EC_KEY k))))"
proof (cases "\<exists>k. c = Some k \<and> pem_read_ok env")
  case True
  then obtain k where k: "c = Some k" "pem_read_ok env" by blast
  show ?thesis
  proof (cases "\<exists>e. k = PKEY_EC e")
    case True
    then obtain e where "k = PKEY_EC e" by blast
    then show ?thesis using rd k
      by (cases "load_pkey_new_ok env") (simp_all add: load_defs error_set_once_def)
  next
    case False
    then show ?thesis using rd k
      by (cases "load_pkey_new_ok env"; cases k) (simp_all add: load_defs error_set_once_def)
  qed
next
  case False
  then have "c = None \<or> \<not> pem_read_ok env" by (cases c) auto
  then show ?thesis using rd
    by (cases "load_pkey_new_ok env"; cases c) (auto simp add: load_defs error_set_once_def)
qed


lemma sgx_ok_flags:
  "bn_gx_ok sgx_env_ok" "bn_gy_ok sgx_env_ok" "ec_key_new_ok sgx_env_ok" "set_affine_ok sgx_env_ok"
  by (simp_all add: sgx_env_ok_def)

lemma sample_missing: "files sample_state (cstr sample_state 0) = Unopenable 2"
  by (simp add: sample_state_def)

lemma state_after_failed_load_eq:
  "state_after_failed_load =
     sample_state\<lparr>heap := [0 \<mapsto> EVP_PKEY PKEY_empty], next_handle := Suc 0,
       error_type := e_system, error_writes := [e_none, e_system], errno := 2, ep := Some 0\<rparr>"
  unfolding state_after_failed_load_def key_load_file_unopenable [OF sample_missing]
  by (simp add: load_env_ok_def sample_state_def)

subsection \<open>The error record\<close>

text \<open>
  Claim C3, as stated, fails: no operation resets the context pointer \<open>ep\<close>. After a
  \<open>key_load_file\<close> of a missing file has stored the path, a successful
  \<open>key_from_sgx_ec256\<close> leaves \<open>error_type\<close> at \<open>e_none\<close> and \<open>ep\<close> still at the path.
\<close>

theorem error_state_context_counterexample:
  "ep state_after_failed_load = Some 0
   \<and> fst (key_from_sgx_ec256 sgx_env_ok generator_on_wire state_after_failed_load) \<noteq> None
   \<and> error_type (snd (key_from_sgx_ec256 sgx_env_ok generator_on_wire state_after_failed_load))
       = e_none
   \<and> ep (snd (key_from_sgx_ec256 sgx_env_ok generator_on_wire state_after_failed_load)) = Some 0"
  unfolding generator_on_wire_def
    key_from_sgx_ec256_accepts [OF generator_in_range on_curve_generator sgx_ok_flags]
  by (simp add: state_after_failed_load_eq)

lemma key_load_file_ep:
  "ep (snd (snd (key_load_file env eckey0 filename s))) =
     (case files s (cstr s filename) of Unopenable e \<Rightarrow> Some filename | Readable c \<Rightarrow> ep s)"
proof (cases "files s (cstr s filename)")
  case (Unopenable e)
  then show ?thesis by (simp add: key_load_file_unopenable)
next
  case (Readable c)
  then show ?thesis
    using key_load_file_readable [OF Readable, of env eckey0]
    by (cases "key_load_file env eckey0 filename s") simp
qed

lemma key_load_file_error_set_once:
  assumes "fst (key_load_file env eckey0 filename s) = Some v"
  shows "error_set_once s (snd (snd (key_load_file env eckey0 filename s))) (v = 0)"
proof (cases "files s (cstr s filename)")
  case (Unopenable e)
  then show ?thesis using assms
    by (auto simp add: key_load_file_unopenable error_set_once_def)
next
  case (Readable c)
  then show ?thesis
    using key_load_file_readable [OF Readable, of env eckey0] assms
    by (cases "key_load_file env eckey0 filename s") simp
qed

lemma key_shared_secret_result:
  assumes wf: "heap_wf s"
  shows "case key_shared_secret env ec_g_a s of (r, n, st) \<Rightarrow>
           ep st = ep s \<and> next_handle s \<le> next_handle st \<and>
           (if all_steps_succeed env ec_g_a s
            then r = Some (Suc (Suc (Suc (Suc (Suc (Suc (next_handle s)))))))
              \<and> Suc (Suc (Suc (Suc (Suc (Suc (next_handle s)))))) < next_handle st
              \<and> n = length (ecdh_secret env) \<and> ecdh_secret env \<noteq> []
              \<and> heap st = (heap s)(Suc (Suc (Suc (Suc (Suc (Suc (next_handle s)))))) \<mapsto>
                   BUF (length (ecdh_secret env)) (ecdh_secret env))
              \<and> error_type st = e_none \<and> error_writes st = error_writes s @ [e_none]
            else r = None \<and> heap st = heap s \<and> error_type st = e_crypto
              \<and> error_writes st = error_writes s @ [e_none, e_crypto]
              \<and> n = (if reaches_length_query env ec_g_a s \<and> derive_len_ok env
                     then length (ecdh_secret env) else 0))"
  using key_shared_secret_outcome [OF wf, of env ec_g_a]
  by (cases "key_shared_secret env ec_g_a s")
     (simp add: stage_outcome_def swept_locals0 set_error_type_def)

lemma key_shared_secret_error_set_once:
  assumes wf: "heap_wf s"
  shows "error_set_once s (snd (snd (key_shared_secret env ec_g_a s)))
           (fst (key_shared_secret env ec_g_a s) = None)
       \<and> ep (snd (snd (key_shared_secret env ec_g_a s))) = ep s"
  using key_shared_secret_result [OF wf, of env ec_g_a]
  by (cases "key_shared_secret env ec_g_a s"; cases "all_steps_succeed env ec_g_a s")
     (simp_all add: error_set_once_def)

text \<open>
  Claim C3, amended. Every operation assigns \<open>e_none\<close> to \<open>error_type\<close> at entry and
  then assigns it once more exactly when it fails (\<open>key_load_file\<close> returns 0, the
  other two return NULL), to a value that is not \<open>e_none\<close>. The context pointer \<open>ep\<close>
  is not reset: \<open>key_load_file\<close> sets it to the file name when the open fails, and
  every other path of the three operations leaves it as it was.
\<close>

theorem error_kind_reset_and_set_once:
  assumes wf: "heap_wf s"
  shows "(\<forall>v. fst (key_load_file lenv eckey0 filename s) = Some v \<longrightarrow>
            error_set_once s (snd (snd (key_load_file lenv eckey0 filename s))) (v = 0))
       \<and> ep (snd (snd (key_load_file lenv eckey0 filename s))) =
            (case files s (cstr s filename) of Unopenable e \<Rightarrow> Some filename
             | Readable c \<Rightarrow> ep s)
       \<and> error_set_once s (snd (key_from_sgx_ec256 genv k s))
            (fst (key_from_sgx_ec256 genv k s) = None)
       \<and> ep (snd (key_from_sgx_ec256 genv k s)) = ep s
       \<and> error_set_once s (snd (snd (key_shared_secret senv ec_g_a s)))
            (fst (key_shared_secret senv ec_g_a s) = None)
       \<and> ep (snd (snd (key_shared_secret senv ec_g_a s))) = ep s"
  using key_load_file_error_set_once [of lenv eckey0 filename s] key_load_file_ep
    key_from_sgx_ec256_error_set_once key_shared_secret_error_set_once [OF wf]
  by blast

theorem error_kind_reset_and_set_once_witness:
  "heap_wf sample_state
   \<and> fst (key_load_file load_env_ok None 0 sample_state) = Some 0
   \<and> error_set_once sample_state (snd (snd (key_load_file load_env_ok None 0 sample_state)))
        ((0::int) = 0)
   \<and> error_set_once sample_state (snd (key_from_sgx_ec256 sgx_env_ok off_curve_on_wire sample_state))
        (fst (key_from_sgx_ec256 sgx_env_ok off_curve_on_wire sample_state) = None)
   \<and> error_set_once sample_state (snd (snd (key_shared_secret secret_env_ok None sample_state)))
        (fst (key_shared_secret secret_env_ok None sample_state) = None)"
proof -
  have r: "fst (key_load_file load_env_ok None 0 sample_state) = Some 0"
    by (simp add: key_load_file_unopenable [OF sample_missing])
  show ?thesis
    using error_kind_reset_and_set_once [OF heap_wf_sample, of load_env_ok None 0 sgx_env_ok
        off_curve_on_wire secret_env_ok None] r heap_wf_sample
    by blast
qed

subsection \<open>The allocator invariant\<close>

text \<open>
  The hypothesis \<open>heap_wf\<close> of the theorems holds as the program starts and is kept by
  every operation of the module, so it holds at every call.
\<close>

lemma heap_wf_key_from_sgx_ec256:
  assumes wf: "heap_wf s"
  shows "heap_wf (snd (key_from_sgx_ec256 env k s))"
proof -
  have "\<And>h. next_handle s \<le> h \<Longrightarrow> heap s h = None"
    using wf by (simp add: heap_wf_def)
  then show ?thesis
    by (cases "bn_gx_ok env"; cases "bn_gy_ok env"; cases "ec_key_new_ok env")
       (simp_all add: sgx_defs heap_wf_def split: prod.splits option.splits obj.splits if_splits)
qed

lemma heap_wf_key_load_file:
  assumes wf: "heap_wf s"
  shows "heap_wf (snd (snd (key_load_file env eckey0 filename s)))"
proof -
  have f: "\<And>h. next_handle s \<le> h \<Longrightarrow> heap s h = None"
    using wf by (simp add: heap_wf_def)
  show ?thesis
  proof (cases "files s (cstr s filename)")
    case (Unopenable e)
    then show ?thesis using f
      by (simp add: key_load_file_unopenable heap_wf_def)
  next
    case (Readable c)
    then show ?thesis using f
      by (cases "load_pkey_new_ok env"; cases "pem_read_ok env"; cases c)
         (auto simp add: load_defs heap_wf_def split: pkey.splits)
  qed
qed

lemma heap_wf_key_shared_secret:
  assumes wf: "heap_wf s"
  shows "heap_wf (snd (snd (key_shared_secret env ec_g_a s)))"
proof -
  have f: "\<And>h. next_handle s \<le> h \<Longrightarrow> heap s h = None"
    using wf by (simp add: heap_wf_def)
  show ?thesis
    using key_shared_secret_result [OF wf, of env ec_g_a] f
    by (cases "key_shared_secret env ec_g_a s"; cases "all_steps_succeed env ec_g_a s")
       (simp_all add: heap_wf_def)
qed

lemmas perror_defs = key_perror_def perror_def ERR_print_errors_fp_def fprintf_stderr_def
  other_system_call_def Let_def

lemma heap_wf_key_perror: "heap_wf s \<Longrightarrow> heap_wf (key_perror prefix s)"
  by (simp add: heap_wf_def perror_defs)

lemma heap_wf_other_system_call: "heap_wf s \<Longrightarrow> heap_wf (other_system_call e s)"
  by (simp add: heap_wf_def other_system_call_def)

subsection \<open>Curves\<close>

lemma p384_load:
  "fst (key_load_file load_env_ok None 1 sample_state) = Some 1"
  "fst (snd (key_load_file load_env_ok None 1 sample_state)) = Some 2"
  "heap state_after_p384_load 2 = Some (EC_KEY p384_key)"
  by (simp_all add: state_after_p384_load_def load_defs load_env_ok_def sample_state_def)

lemma heap_wf_p384: "heap_wf state_after_p384_load"
  unfolding state_after_p384_load_def by (rule heap_wf_key_load_file [OF heap_wf_sample])

lemma p384_not_p256: "curve_nid p384_key \<noteq> NID_X9_62_prime256v1"
  by (simp add: p384_key_def NID_secp384r1_def NID_X9_62_prime256v1_def)

text \<open>
  Claim C4, as stated, fails: \<open>key_load_file\<close> has no curve check. On a PEM file that
  holds an EC private key on secp384r1 it returns 1 and a key handle whose curve is not
  P-256.
\<close>

theorem key_load_file_other_curve_counterexample:
  "fst (key_load_file load_env_ok None 1 sample_state) = Some 1
   \<and> fst (snd (key_load_file load_env_ok None 1 sample_state)) = Some 2
   \<and> heap (snd (snd (key_load_file load_env_ok None 1 sample_state))) 2 = Some (EC_KEY p384_key)
   \<and> curve_nid p384_key \<noteq> NID_X9_62_prime256v1"
  by (simp add: load_defs load_env_ok_def sample_state_def p384_key_def NID_secp384r1_def
      NID_X9_62_prime256v1_def)

lemma key_from_sgx_ec256_curve:
  assumes "fst (key_from_sgx_ec256 env k s) = Some h"
  shows "\<exists>e. heap (snd (key_from_sgx_ec256 env k s)) h = Some (EC_KEY e)
           \<and> curve_nid e = NID_X9_62_prime256v1"
proof (cases "bn_gx_ok env \<and> bn_gy_ok env \<and> ec_key_new_ok env")
  case True
  then show ?thesis using assms
    by (auto simp add: sgx_defs split: if_splits)
next
  case False
  then have "fst (key_from_sgx_ec256 env k s) = None"
    by (cases "bn_gx_ok env"; cases "bn_gy_ok env") (simp_all add: sgx_defs)
  then show ?thesis using assms by simp
qed

lemma key_load_file_curve:
  assumes "fst (key_load_file env eckey0 filename s) = Some v" "v \<noteq> 0"
  shows "\<exists>k h. files s (cstr s filename) = Readable (Some (PKEY_EC k))
           \<and> fst (snd (key_load_file env eckey0 filename s)) = Some h
           \<and> heap (snd (snd (key_load_file env eckey0 filename s))) h = Some (EC_KEY k)"
proof (cases "files s (cstr s filename)")
  case (Unopenable e)
  then show ?thesis using assms by (simp add: key_load_file_unopenable)
next
  case (Readable c)
  then show ?thesis
    using key_load_file_readable [OF Readable, of env eckey0] assms
    by (cases "key_load_file env eckey0 filename s") auto
qed

lemma key_shared_secret_other_curve:
  assumes wf: "heap_wf s"
    and peer: "ec_g_a = Some h" "heap s h = Some (EC_KEY e)"
    and other: "curve_nid e \<noteq> NID_X9_62_prime256v1"
  shows "fst (key_shared_secret env ec_g_a s) = None
       \<and> error_type (snd (snd (key_shared_secret env ec_g_a s))) = e_crypto
       \<and> heap (snd (snd (key_shared_secret env ec_g_a s))) = heap s"
proof -
  have "\<not> all_steps_succeed env ec_g_a s"
    using peer other
    by (simp add: all_steps_succeed_def reaches_length_query_def peer_steps_ok_def
        peer_is_p256_key_def)
  then show ?thesis
    using key_shared_secret_result [OF wf, of env ec_g_a]
    by (cases "key_shared_secret env ec_g_a s") simp
qed

text \<open>
  Claim C4, amended. Every key handle that \<open>key_from_sgx_ec256\<close> returns is an EC key
  on P-256, and \<open>key_shared_secret\<close> rejects a peer key on any other curve: it returns
  NULL, leaves \<open>error_type\<close> at \<open>e_crypto\<close> and leaves nothing allocated. Only
  \<open>key_load_file\<close> does not look at the curve: when it returns success, the file holds
  an EC private key and the handle returned is that key, on whatever curve the file
  encodes.
\<close>

theorem key_handles_and_curves:
  "(\<forall>h. fst (key_from_sgx_ec256 genv k s) = Some h \<longrightarrow>
      (\<exists>e. heap (snd (key_from_sgx_ec256 genv k s)) h = Some (EC_KEY e)
            \<and> curve_nid e = NID_X9_62_prime256v1))
   \<and> (\<forall>h e. heap_wf s \<and> ec_g_a = Some h \<and> heap s h = Some (EC_KEY e)
            \<and> curve_nid e \<noteq> NID_X9_62_prime256v1 \<longrightarrow>
        fst (key_shared_secret senv ec_g_a s) = None
      \<and> error_type (snd (snd (key_shared_secret senv ec_g_a s))) = e_crypto
      \<and> heap (snd (snd (key_shared_secret senv ec_g_a s))) = heap s)
   \<and> (\<forall>v. fst (key_load_file lenv eckey0 filename s) = Some v \<and> v \<noteq> 0 \<longrightarrow>
      (\<exists>e h. files s (cstr s filename) = Readable (Some (PKEY_EC e))
            \<and> fst (snd (key_load_file lenv eckey0 filename s)) = Some h
            \<and> heap (snd (snd (key_load_file lenv eckey0 filename s))) h = Some (EC_KEY e)))"
proof -
  have c1: "\<forall>h. fst (key_from_sgx_ec256 genv k s) = Some h \<longrightarrow>
      (\<exists>e. heap (snd (key_from_sgx_ec256 genv k s)) h = Some (EC_KEY e)
            \<and> curve_nid e = NID_X9_62_prime256v1)"
  proof (intro allI impI)
    fix h
    assume "fst (key_from_sgx_ec256 genv k s) = Some h"
    then show "\<exists>e. heap (snd (key_from_sgx_ec256 genv k s)) h = Some (EC_KEY e)
            \<and> curve_nid e = NID_X9_62_prime256v1"
      by (rule key_from_sgx_ec256_curve)
  qed
  have c2: "\<forall>h e. heap_wf s \<and> ec_g_a = Some h \<and> heap s h = Some (EC_KEY e)
            \<and> curve_nid e \<noteq> NID_X9_62_prime256v1 \<longrightarrow>
        fst (key_shared_secret senv ec_g_a s) = None
      \<and> error_type (snd (snd (key_shared_secret senv ec_g_a s))) = e_crypto
      \<and> heap (snd (snd (key_shared_secret senv ec_g_a s))) = heap s"
  proof (intro allI impI)
    fix h e
    assume a: "heap_wf s \<and> ec_g_a = Some h \<and> heap s h = Some (EC_KEY e)
            \<and> curve_nid e \<noteq> NID_X9_62_prime256v1"
    show "fst (key_shared_secret senv ec_g_a s) = None
      \<and> error_type (snd (snd (key_shared_secret senv ec_g_a s))) = e_crypto
      \<and> heap (snd (snd (key_shared_secret senv ec_g_a s))) = heap s"
      using a by (intro key_shared_secret_other_curve [where h = h and e = e]) simp_all
  qed
  have c3: "\<forall>v. fst (key_load_file lenv eckey0 filename s) = Some v \<and> v \<noteq> 0 \<longrightarrow>
      (\<exists>e h. files s (cstr s filename) = Readable (Some (PKEY_EC e))
            \<and> fst (snd (key_load_file lenv eckey0 filename s)) = Some h
            \<and> heap (snd (snd (key_load_file lenv eckey0 filename s))) h = Some (EC_KEY e))"
  proof (intro allI impI)
    fix v
    assume a: "fst (key_load_file lenv eckey0 filename s) = Some v \<and> v \<noteq> 0"
    show "\<exists>e h. files s (cstr s filename) = Readable (Some (PKEY_EC e))
            \<and> fst (snd (key_load_file lenv eckey0 filename s)) = Some h
            \<and> heap (snd (snd (key_load_file lenv eckey0 filename s))) h = Some (EC_KEY e)"
      using a by (intro key_load_file_curve [where v = v]) simp_all
  qed
  show ?thesis by (rule conjI [OF c1 conjI [OF c2 c3]])
qed

theorem key_handles_and_curves_witness:
  "fst (key_from_sgx_ec256 sgx_env_ok generator_on_wire sample_state) = Some 2
   \<and> (\<exists>e. heap (snd (key_from_sgx_ec256 sgx_env_ok generator_on_wire sample_state)) 2
              = Some (EC_KEY e) \<and> curve_nid e = NID_X9_62_prime256v1)
   \<and> heap_wf state_after_p384_load
   \<and> heap state_after_p384_load 2 = Some (EC_KEY p384_key)
   \<and> curve_nid p384_key \<noteq> NID_X9_62_prime256v1
   \<and> fst (key_shared_secret secret_env_ok (Some 2) state_after_p384_load) = None
   \<and> error_type (snd (snd (key_shared_secret secret_env_ok (Some 2) state_after_p384_load)))
       = e_crypto
   \<and> fst (key_load_file load_env_ok None 1 sample_state) = Some 1 \<and> (1::int) \<noteq> 0
   \<and> (\<exists>e h. files sample_state (cstr sample_state 1) = Readable (Some (PKEY_EC e))
            \<and> fst (snd (key_load_file load_env_ok None 1 sample_state)) = Some h
            \<and> heap (snd (snd (key_load_file load_env_ok None 1 sample_state))) h
                = Some (EC_KEY e))"
proof -
  note at_start = key_handles_and_curves [of sgx_env_ok generator_on_wire sample_state
      "Some 2" secret_env_ok load_env_ok None 1]
  note at_p384 = key_handles_and_curves [of sgx_env_ok generator_on_wire
      state_after_p384_load "Some 2" secret_env_ok load_env_ok None 1]
  have a: "fst (key_from_sgx_ec256 sgx_env_ok generator_on_wire sample_state) = Some 2"
    unfolding generator_on_wire_def
      key_from_sgx_ec256_accepts [OF generator_in_range on_curve_generator sgx_ok_flags]
    by (simp add: sample_state_def)
  have w1: "\<exists>e. heap (snd (key_from_sgx_ec256 sgx_env_ok generator_on_wire sample_state)) 2
              = Some (EC_KEY e) \<and> curve_nid e = NID_X9_62_prime256v1"
    using at_start [THEN conjunct1, rule_format, OF a] .
  have p: "heap_wf state_after_p384_load \<and> Some 2 = Some (2::nat)
            \<and> heap state_after_p384_load 2 = Some (EC_KEY p384_key)
            \<and> curve_nid p384_key \<noteq> NID_X9_62_prime256v1"
    using heap_wf_p384 p384_load(3) p384_not_p256 by simp
  have w2: "fst (key_shared_secret secret_env_ok (Some 2) state_after_p384_load) = None
      \<and> error_type (snd (snd (key_shared_secret secret_env_ok (Some 2) state_after_p384_load)))
          = e_crypto
      \<and> heap (snd (snd (key_shared_secret secret_env_ok (Some 2) state_after_p384_load)))
          = heap state_after_p384_load"
    using at_p384 [THEN conjunct2, THEN conjunct1, rule_format, OF p] .
  have q: "fst (key_load_file load_env_ok None 1 sample_state) = Some 1 \<and> (1::int) \<noteq> 0"
    using p384_load(1) by simp
  have w3: "\<exists>e h. files sample_state (cstr sample_state 1) = Readable (Some (PKEY_EC e))
            \<and> fst (snd (key_load_file load_env_ok None 1 sample_state)) = Some h
            \<and> heap (snd (snd (key_load_file load_env_ok None 1 sample_state))) h
                = Some (EC_KEY e)"
    using at_start [THEN conjunct2, THEN conjunct2, rule_format, OF q] .
  show ?thesis
    using a w1 p w2 q w3 by (intro conjI) (erule conjE | assumption | simp)+
qed

subsection \<open>key_load_file and its file handle\<close>

text \<open>
  Claim C5. \<open>key_load_file\<close> leaves no stream open: on every path, the crash inside
  the library included, the streams open at the end are those open at the call, so the
  stream of a successful open is closed again. When the path cannot be opened the call
  returns 0, does not write \<open>*eckey\<close>, leaves \<open>error_type\<close> at \<open>e_system\<close> and \<open>ep\<close>
  at the path it was given.
\<close>

theorem key_load_file_file_handles:
  assumes wf: "heap_wf s"
  shows "open_files (snd (snd (key_load_file env eckey0 filename s))) = open_files s
       \<and> (\<forall>e. files s (cstr s filename) = Unopenable e \<longrightarrow>
            fst (key_load_file env eckey0 filename s) = Some 0
          \<and> fst (snd (key_load_file env eckey0 filename s)) = eckey0
          \<and> error_type (snd (snd (key_load_file env eckey0 filename s))) = e_system
          \<and> ep (snd (snd (key_load_file env eckey0 filename s))) = Some filename
          \<and> cstr (snd (snd (key_load_file env eckey0 filename s))) filename = cstr s filename)"
proof (cases "files s (cstr s filename)")
  case (Unopenable e)
  have f: "heap s (next_handle s) = None" using wf by (simp add: heap_wf_def)
  show ?thesis using f
    by (auto simp add: key_load_file_unopenable [OF Unopenable] open_files_def)
next
  case (Readable c)
  obtain r eck st where res: "key_load_file env eckey0 filename s = (r, eck, st)"
    by (cases "key_load_file env eckey0 filename s")
  have ch: "\<And>h. heap st h \<noteq> heap s h \<Longrightarrow>
      next_handle s \<le> h \<and> (\<forall>p. heap st h \<noteq> Some (FILE_stream p))"
    using key_load_file_readable [OF Readable, of env eckey0] res by simp
  have "open_files st = open_files s"
  proof (rule set_eqI)
    fix h
    show "h \<in> open_files st \<longleftrightarrow> h \<in> open_files s"
    proof (cases "heap st h = heap s h")
      case True
      then show ?thesis by (simp add: open_files_def)
    next
      case False
      then have "next_handle s \<le> h" "\<forall>p. heap st h \<noteq> Some (FILE_stream p)"
        using ch by blast+
      moreover have "heap s h = None" using wf \<open>next_handle s \<le> h\<close> by (simp add: heap_wf_def)
      ultimately show ?thesis by (simp add: open_files_def)
    qed
  qed
  then show ?thesis using res Readable by simp
qed

theorem key_load_file_file_handles_witness:
  "heap_wf sample_state \<and> files sample_state (cstr sample_state 0) = Unopenable 2
   \<and> open_files (snd (snd (key_load_file load_env_ok None 0 sample_state)))
       = open_files sample_state
   \<and> fst (key_load_file load_env_ok None 0 sample_state) = Some 0
   \<and> error_type (snd (snd (key_load_file load_env_ok None 0 sample_state))) = e_system
   \<and> ep (snd (snd (key_load_file load_env_ok None 0 sample_state))) = Some 0"
  using key_load_file_file_handles [OF heap_wf_sample, of load_env_ok None 0] heap_wf_sample
    sample_missing
  by blast

subsection \<open>key_perror\<close>

text \<open>
  Claim C9, as stated, fails: the system error code is not captured at the failure.
  After a \<open>key_load_file\<close> of a missing file (\<open>errno\<close> 2), the report renders code 2
  when it follows at once and code 13 when another call has left 13 in \<open>errno\<close>.
\<close>

theorem report_after_system_call_counterexample:
  "error_type state_after_failed_load = e_system \<and> errno state_after_failed_load = 2
   \<and> stderr (key_perror 2 state_after_failed_load)
       = [Out_prefix ''eckey'', Out_perror (Some ''missing.pem'') 2]
   \<and> stderr (key_perror 2 (other_system_call 13 state_after_failed_load))
       = [Out_prefix ''eckey'', Out_perror (Some ''missing.pem'') 13]"
  by (simp add: state_after_failed_load_eq perror_defs sample_state_def)

text \<open>
  Claim C9, amended. For every \<open>key_load_file\<close> that fails at the open, the report
  renders the path string found at the stored pointer and the value \<open>errno\<close> has when
  the report is made: the code of the failed open when nothing has touched \<open>errno\<close>
  since, and the code an intervening call left otherwise. Only the kind and the path
  pointer are captured at the failure.
\<close>

theorem report_reads_errno_at_report_time:
  assumes "files s (cstr s filename) = Unopenable e"
  shows "stderr (key_perror prefix (snd (snd (key_load_file env eckey0 filename s))))
           = stderr s @ [Out_prefix (cstr s prefix), Out_perror (Some (cstr s filename)) e]
       \<and> stderr (key_perror prefix
             (other_system_call e' (snd (snd (key_load_file env eckey0 filename s)))))
           = stderr s @ [Out_prefix (cstr s prefix), Out_perror (Some (cstr s filename)) e']"
  by (simp add: key_load_file_unopenable [OF assms] perror_defs)

theorem report_reads_errno_at_report_time_witness:
  "files sample_state (cstr sample_state 0) = Unopenable 2
   \<and> stderr (key_perror 2 (snd (snd (key_load_file load_env_ok None 0 sample_state))))
       = stderr sample_state @ [Out_prefix (cstr sample_state 2),
                                Out_perror (Some (cstr sample_state 0)) 2]
   \<and> stderr (key_perror 2
         (other_system_call 13 (snd (snd (key_load_file load_env_ok None 0 sample_state)))))
       = stderr sample_state @ [Out_prefix (cstr sample_state 2),
                                Out_perror (Some (cstr sample_state 0)) 13]"
  using report_reads_errno_at_report_time [OF sample_missing, of 2 load_env_ok None 13]
    sample_missing
  by blast


lemma heap_wf_peer: "heap_wf peer_state"
  by (simp add: heap_wf_def peer_state_def sample_state_def)

lemma secret_sample_length: "length (ecdh_secret secret_env_ok) = 32"
  by (simp add: secret_env_ok_def length_nat2lebin)

lemma secret_sample_nonempty: "ecdh_secret secret_env_ok \<noteq> []"
  using secret_sample_length by auto

lemma peer_state_reaches_query:
  "reaches_length_query secret_env_ok (Some 0) peer_state"
  "reaches_length_query secret_env_no_memory (Some 0) peer_state"
  by (simp_all add: reaches_length_query_def start_steps_ok_def keygen_steps_ok_def
      peer_steps_ok_def peer_is_p256_key_def secret_env_ok_def secret_env_no_memory_def
      peer_state_def sample_state_def)

lemma peer_state_all_steps: "all_steps_succeed secret_env_ok (Some 0) peer_state"
  using peer_state_reaches_query(1) secret_sample_nonempty
  by (simp add: all_steps_succeed_def derive_steps_ok_def) (simp add: secret_env_ok_def)

lemma peer_state_no_memory: "\<not> all_steps_succeed secret_env_no_memory (Some 0) peer_state"
  by (simp add: all_steps_succeed_def derive_steps_ok_def secret_env_no_memory_def)

subsection \<open>key_shared_secret\<close>

text \<open>
  Claim C6. When any step of \<open>key_shared_secret\<close> fails (parameter generation, key
  generation, wrapping of the peer key, setup of the derivation, length query,
  allocation of the buffer, derivation), the function returns NULL, leaves \<open>error_type\<close>
  at \<open>e_crypto\<close>, and the heap at the return is the heap at the call: the parameters,
  the ephemeral key, the peer key wrapper, the three contexts and the buffer, if it was
  allocated, are all released.
\<close>

theorem key_shared_secret_failure_releases:
  assumes wf: "heap_wf s" and failed: "\<not> all_steps_succeed env ec_g_a s"
  shows "fst (key_shared_secret env ec_g_a s) = None
       \<and> heap (snd (snd (key_shared_secret env ec_g_a s))) = heap s
       \<and> error_type (snd (snd (key_shared_secret env ec_g_a s))) = e_crypto"
  using key_shared_secret_result [OF wf, of env ec_g_a] failed
  by (cases "key_shared_secret env ec_g_a s") simp

theorem key_shared_secret_failure_releases_witness:
  "heap_wf peer_state \<and> \<not> all_steps_succeed secret_env_no_memory (Some 0) peer_state
   \<and> fst (key_shared_secret secret_env_no_memory (Some 0) peer_state) = None
   \<and> heap (snd (snd (key_shared_secret secret_env_no_memory (Some 0) peer_state)))
       = heap peer_state
   \<and> error_type (snd (snd (key_shared_secret secret_env_no_memory (Some 0) peer_state)))
       = e_crypto"
  using key_shared_secret_failure_releases [OF heap_wf_peer peer_state_no_memory]
    heap_wf_peer peer_state_no_memory
  by blast

text \<open>
  Claim C7. When \<open>key_shared_secret\<close> returns a buffer, \<open>*slen\<close> is not zero, equals
  the length the derivation primitive reports when queried, and the buffer holds exactly
  that many bytes in a capacity of that many bytes: the whole secret.
\<close>

theorem key_shared_secret_length:
  assumes wf: "heap_wf s" and ret: "fst (key_shared_secret env ec_g_a s) = Some b"
  shows "fst (snd (key_shared_secret env ec_g_a s)) \<noteq> 0
       \<and> fst (snd (key_shared_secret env ec_g_a s))
           = fst (snd (EVP_PKEY_derive True (ecdh_secret env) sctx None n0 t))
       \<and> (\<exists>bytes. heap (snd (snd (key_shared_secret env ec_g_a s))) b
             = Some (BUF (fst (snd (key_shared_secret env ec_g_a s))) bytes)
           \<and> length bytes = fst (snd (key_shared_secret env ec_g_a s))
           \<and> bytes = ecdh_secret env)"
  using key_shared_secret_result [OF wf, of env ec_g_a] ret
  by (cases "key_shared_secret env ec_g_a s"; cases "all_steps_succeed env ec_g_a s")
     (simp_all add: EVP_PKEY_derive_def)

lemma peer_state_secret_returned:
  "fst (key_shared_secret secret_env_ok (Some 0) peer_state) = Some 7"
proof -
  have n: "next_handle peer_state = 1" by (simp add: peer_state_def)
  show ?thesis
    using key_shared_secret_result [OF heap_wf_peer, of secret_env_ok "Some 0"]
      peer_state_all_steps n
    by (cases "key_shared_secret secret_env_ok (Some 0) peer_state") (simp add: eval_nat_numeral)
qed

theorem key_shared_secret_length_witness:
  "heap_wf peer_state \<and> fst (key_shared_secret secret_env_ok (Some 0) peer_state) = Some 7
   \<and> fst (snd (key_shared_secret secret_env_ok (Some 0) peer_state)) \<noteq> 0
   \<and> (\<exists>bytes. heap (snd (snd (key_shared_secret secret_env_ok (Some 0) peer_state))) 7
         = Some (BUF (fst (snd (key_shared_secret secret_env_ok (Some 0) peer_state))) bytes)
       \<and> length bytes = fst (snd (key_shared_secret secret_env_ok (Some 0) peer_state)))"
  using key_shared_secret_length [OF heap_wf_peer peer_state_secret_returned]
    heap_wf_peer peer_state_secret_returned
  by blast

text \<open>
  Claim C10. When \<open>key_shared_secret\<close> fails it returns NULL, and \<open>*slen\<close> is zero only
  if the failure came before the length query had succeeded: after a successful query
  (a failed allocation or a failed derivation) \<open>*slen\<close> holds the length queried. In the
  sample run without memory for the buffer the function returns NULL with \<open>*slen\<close> 32.
\<close>

theorem key_shared_secret_slen_on_failure:
  assumes wf: "heap_wf s" and failed: "\<not> all_steps_succeed env ec_g_a s"
  shows "fst (key_shared_secret env ec_g_a s) = None
       \<and> fst (snd (key_shared_secret env ec_g_a s))
           = (if reaches_length_query env ec_g_a s \<and> derive_len_ok env
              then length (ecdh_secret env) else 0)"
  using key_shared_secret_result [OF wf, of env ec_g_a] failed
  by (cases "key_shared_secret env ec_g_a s") simp

theorem key_shared_secret_slen_on_failure_witness:
  "heap_wf peer_state \<and> \<not> all_steps_succeed secret_env_no_memory (Some 0) peer_state
   \<and> fst (key_shared_secret secret_env_no_memory (Some 0) peer_state) = None
   \<and> fst (snd (key_shared_secret secret_env_no_memory (Some 0) peer_state)) = 32"
proof -
  have q: "reaches_length_query secret_env_no_memory (Some 0) peer_state
           \<and> derive_len_ok secret_env_no_memory"
    using peer_state_reaches_query(2) by (simp add: secret_env_no_memory_def secret_env_ok_def)
  have l: "length (ecdh_secret secret_env_no_memory) = 32"
    using secret_sample_length by (simp add: secret_env_no_memory_def)
  show ?thesis
    using key_shared_secret_slen_on_failure [OF heap_wf_peer peer_state_no_memory]
      heap_wf_peer peer_state_no_memory q l
    by simp
qed

end
